theory Spec2Isabelle
  imports Main "HOL-Library.Word" "HOL-Library.Char_ord" "HOL-Library.List_Lexorder"
begin

section \<open>QHalRemoteComponent: the HAL remote component controller\<close>

text \<open>
  A shallow embedding of \<^verbatim>\<open>src/halremote/qhalremotecomponent.cpp\<close>. Every member
  function of \<^verbatim>\<open>QHalRemoteComponent\<close> is a HOL function on a record of the object's
  members, returned updated. The pins are objects owned by the container item and
  only referenced by the controller, so they live in an explicit store (\<open>heap\<close>)
  addressed by pin references; the two \<^verbatim>\<open>QMap\<close>s hold references. A null pointer is
  \<open>None\<close>, and dereferencing it is the fault \<open>NullPointerDereference\<close>.
\<close>

subsection \<open>Enumerations\<close>

datatype State = Disconnected | Connecting | Connected | Error

datatype SocketState = Down | Trying | Up

datatype ConnectionError =
  NoError | BindError | PinChangeError | CommandError | TimeoutError | SocketError

text \<open>
  \<^verbatim>\<open>QHalPin::HalPinType\<close> and \<^verbatim>\<open>QHalPin::HalPinDirection\<close> are cast unchanged to
  \<^verbatim>\<open>pb::ValueType\<close> and \<^verbatim>\<open>pb::HalPinDirection\<close>; one datatype serves both sides.
\<close>

datatype HalPinType = Bit | Float | S32 | U32

datatype HalPinDirection = In | Out | IO

datatype ContainerType =
    MT_HALRCOMP_BIND
  | MT_HALRCOMP_SET
  | MT_PING
  | MT_PING_ACKNOWLEDGE
  | MT_HALRCOMP_BIND_CONFIRM
  | MT_HALRCOMP_BIND_REJECT
  | MT_HALRCOMP_SET_REJECT
  | MT_HALRCOMP_INCREMENTAL_UPDATE
  | MT_HALRCOMP_FULL_UPDATE
  | MT_HALRCOMMAND_ERROR
  | MT_OTHER nat

datatype fault = NullPointerDereference

subsection \<open>Values\<close>

text \<open>
  A \<^verbatim>\<open>double\<close> is only stored and forwarded by the controller, never computed with:
  it is its 64-bit pattern. A \<^verbatim>\<open>QVariant\<close> is built by the four constructors that
  \<^verbatim>\<open>pinUpdate\<close> uses. The conversions \<^verbatim>\<open>toDouble\<close>, \<^verbatim>\<open>toBool\<close>, \<^verbatim>\<open>toInt\<close> and \<^verbatim>\<open>toUInt\<close>
  are library code of Qt: the functions that call them take them as a parameter.
\<close>

type_synonym double = "64 word"

datatype QVariant =
    QVariant_double double
  | QVariant_bool bool
  | QVariant_int "32 word"
  | QVariant_uint "32 word"

record QVariantConversions =
  toDouble :: "QVariant \<Rightarrow> double"
  toBool :: "QVariant \<Rightarrow> bool"
  toInt :: "QVariant \<Rightarrow> 32 word"
  toUInt :: "QVariant \<Rightarrow> 32 word"

subsection \<open>Pins\<close>

text \<open>
  Modelled from the spec: the class \<^verbatim>\<open>QHalPin\<close> (its header and implementation are
  not part of the sources at hand). A pin has a local short name, a type tag, a
  direction tag, a current value, an \<open>enabled\<close> flag, a \<open>synced\<close> flag and the
  numeric handle assigned by the server. The handle is the 32-bit pattern that the
  wire carries as \<^verbatim>\<open>uint32\<close> and the pin keeps as \<^verbatim>\<open>int\<close>.
\<close>

record QHalPin =
  pin_name :: string
  pin_type :: HalPinType
  pin_direction :: HalPinDirection
  pin_value :: QVariant
  pin_enabled :: bool
  pin_synced :: bool
  pin_handle :: "32 word"

type_synonym pin_ref = nat

text \<open>
  The object tree below the container item: a node is a \<^verbatim>\<open>QHalPin\<close> at some
  address (\<open>inherits("QHalPin")\<close>) or another object, and has children.
\<close>

datatype QObject = QObject (as_QHalPin: "pin_ref option") (children: "QObject list")

subsection \<open>Wire messages\<close>

text \<open>
  The protobuf messages, with optional fields as options. A getter of an unset field
  returns the default of its type.
\<close>

record pb_Pin =
  pb_name :: "string option"
  pb_handle :: "32 word option"
  pb_type :: "HalPinType option"
  pb_dir :: "HalPinDirection option"
  pb_halfloat :: "double option"
  pb_halbit :: "bool option"
  pb_hals32 :: "32 word option"
  pb_halu32 :: "32 word option"

record pb_Component =
  comp_name :: "string option"
  comp_pin :: "pb_Pin list"

record pb_ProtocolParameters =
  keepalive_timer :: "32 word option"

record pb_Container =
  msg_type :: ContainerType
  msg_comp :: "pb_Component list"
  msg_pin :: "pb_Pin list"
  msg_note :: "string list"
  msg_pparams :: "pb_ProtocolParameters option"

definition new_Pin :: pb_Pin where
  "new_Pin = \<lparr>pb_name = None, pb_handle = None, pb_type = None, pb_dir = None,
     pb_halfloat = None, pb_halbit = None, pb_hals32 = None, pb_halu32 = None\<rparr>"

definition new_Container :: "ContainerType \<Rightarrow> pb_Container" where
  "new_Container t = \<lparr>msg_type = t, msg_comp = [], msg_pin = [], msg_note = [],
     msg_pparams = None\<rparr>"

definition name_of :: "pb_Pin \<Rightarrow> string" where
  "name_of p = (case pb_name p of None \<Rightarrow> [] | Some n \<Rightarrow> n)"

definition handle_of :: "pb_Pin \<Rightarrow> 32 word" where
  "handle_of p = (case pb_handle p of None \<Rightarrow> 0 | Some h \<Rightarrow> h)"

definition keepalive_timer_of :: "pb_ProtocolParameters \<Rightarrow> int" where
  "keepalive_timer_of pp = (case keepalive_timer pp of None \<Rightarrow> 0 | Some k \<Rightarrow> sint k)"

subsection \<open>Qt containers, strings and timers\<close>

text \<open>
  A \<^verbatim>\<open>QMap\<close> that is iterated is an association list in ascending key order, as
  \<^verbatim>\<open>QMap\<close> keeps it; inserting an existing key replaces its value. \<^verbatim>\<open>QMap::value\<close>
  returns a default-constructed value, the null pointer, for a missing key.
\<close>

fun QMap_insert :: "'k::linorder \<Rightarrow> 'v \<Rightarrow> ('k \<times> 'v) list \<Rightarrow> ('k \<times> 'v) list" where
  "QMap_insert k v [] = [(k, v)]"
| "QMap_insert k v ((k', v') # kvs) =
     (if k < k' then (k, v) # (k', v') # kvs
      else if k = k' then (k, v) # kvs
      else (k', v') # QMap_insert k v kvs)"

definition QMap_value :: "('k \<times> 'v) list \<Rightarrow> 'k \<Rightarrow> 'v option" where
  "QMap_value m k = map_of m k"

fun indexOf :: "string \<Rightarrow> char \<Rightarrow> int" where
  "indexOf [] ch = - 1"
| "indexOf (c # cs) ch =
     (if c = ch then 0
      else (let i = indexOf cs ch in if i = - 1 then - 1 else i + 1))"

definition mid :: "string \<Rightarrow> int \<Rightarrow> string" where
  "mid s pos = drop (nat pos) s"

fun digits :: "nat \<Rightarrow> string" where
  "digits n =
     (if n < 10 then [char_of (48 + n)]
      else digits (n div 10) @ [char_of (48 + n mod 10)])"

declare digits.simps [simp del]

definition QString_number :: "int \<Rightarrow> string" where
  "QString_number i = (if i < 0 then CHR ''-'' # digits (nat (- i)) else digits (nat i))"

record QTimer =
  isActive :: bool
  interval :: int

type_synonym zmq_error = "int \<times> string"

subsection \<open>The controller\<close>

text \<open>
  The members of \<^verbatim>\<open>QHalRemoteComponent\<close>, followed by the part of the world that its
  member functions act on: the store of pin objects, the connections of the pins'
  \<^verbatim>\<open>valueChanged\<close> signal to the slot \<^verbatim>\<open>pinChange\<close>, the messages handed to the command
  socket and the subscriptions of the update socket. A socket or context pointer is
  \<open>None\<close> when null and \<open>Some b\<close> otherwise, where \<open>b\<close> tells whether its signal is
  connected to the controller's slot.
\<close>

record QHalRemoteComponent =
  m_name :: string
  m_heartbeatPeriod :: int
  m_sState :: SocketState
  m_cState :: SocketState
  m_connectionState :: State
  m_error :: ConnectionError
  m_errorString :: string
  m_ready :: bool
  m_containerItem :: "QObject option"
  m_componentCompleted :: bool
  m_context :: "bool option"
  m_halrcompSocket :: "bool option"
  m_halrcmdSocket :: "bool option"
  m_halrcmdHeartbeatTimer :: QTimer
  m_halrcompHeartbeatTimer :: QTimer
  m_halrcmdPingOutstanding :: bool
  m_halrcompPingOutstanding :: bool
  m_pinsByName :: "(string \<times> pin_ref) list"
  m_pinsByHandle :: "32 word \<rightharpoonup> pin_ref"
  heap :: "pin_ref \<Rightarrow> QHalPin"
  connections :: "pin_ref list"
  halrcmd_sent :: "pb_Container list"
  halrcomp_topics :: "string list"

text \<open>The constructor; the container item defaults to the component itself.\<close>

definition QHalRemoteComponent_new ::
  "QObject \<Rightarrow> (pin_ref \<Rightarrow> QHalPin) \<Rightarrow> QHalRemoteComponent" where
  "QHalRemoteComponent_new this h =
     \<lparr>m_name = ''default'', m_heartbeatPeriod = 3000, m_sState = Down, m_cState = Down,
      m_connectionState = Disconnected, m_error = NoError, m_errorString = [],
      m_ready = False, m_containerItem = Some this, m_componentCompleted = False,
      m_context = None, m_halrcompSocket = None, m_halrcmdSocket = None,
      m_halrcmdHeartbeatTimer = \<lparr>isActive = False, interval = 0\<rparr>,
      m_halrcompHeartbeatTimer = \<lparr>isActive = False, interval = 0\<rparr>,
      m_halrcmdPingOutstanding = False, m_halrcompPingOutstanding = False,
      m_pinsByName = [], m_pinsByHandle = Map.empty, heap = h, connections = [],
      halrcmd_sent = [], halrcomp_topics = []\<rparr>"

subsection \<open>Operations on pin objects\<close>

text \<open>
  Modelled from the spec: the setters of \<^verbatim>\<open>QHalPin\<close>, which is not part of the sources
  at hand. \<open>setValue\<close> with the from-remote flag stores the value and sets
  \<open>synced\<close>, and triggers no outbound SET; a local write (flag unset) stores the
  value, after which the value is not one known to the remote side, and raises the
  pin's \<^verbatim>\<open>valueChanged\<close> signal.
\<close>

definition setSynced :: "pin_ref \<Rightarrow> bool \<Rightarrow> (pin_ref \<Rightarrow> QHalPin) \<Rightarrow> (pin_ref \<Rightarrow> QHalPin)" where
  "setSynced r b h = h(r := (h r)\<lparr>pin_synced := b\<rparr>)"

definition setHandle :: "pin_ref \<Rightarrow> 32 word \<Rightarrow> (pin_ref \<Rightarrow> QHalPin) \<Rightarrow> (pin_ref \<Rightarrow> QHalPin)" where
  "setHandle r hnd h = h(r := (h r)\<lparr>pin_handle := hnd\<rparr>)"

definition setValue ::
  "pin_ref \<Rightarrow> QVariant \<Rightarrow> bool \<Rightarrow> (pin_ref \<Rightarrow> QHalPin) \<Rightarrow> (pin_ref \<Rightarrow> QHalPin)" where
  "setValue r v fromRemote h = h(r := (h r)\<lparr>pin_value := v, pin_synced := fromRemote\<rparr>)"

subsection \<open>Pin registry\<close>

fun recurseObjects :: "QObject list \<Rightarrow> pin_ref list" where
  "recurseObjects [] = []"
| "recurseObjects (QObject p cs # list) =
     (case p of Some r \<Rightarrow> [r] | None \<Rightarrow> [])
     @ (if length cs > 0 then recurseObjects cs else [])
     @ recurseObjects list"

fun addPins_loop :: "pin_ref list \<Rightarrow> QHalRemoteComponent \<Rightarrow> QHalRemoteComponent" where
  "addPins_loop [] c = c"
| "addPins_loop (r # halObjects) c =
     (let pin = heap c r in
      if pin_name pin = [] \<or> pin_enabled pin = False then addPins_loop halObjects c
      else addPins_loop halObjects
             (c\<lparr>m_pinsByName := QMap_insert (pin_name pin) r (m_pinsByName c),
                connections := connections c @ [r]\<rparr>))"

definition addPins :: "QHalRemoteComponent \<Rightarrow> QHalRemoteComponent" where
  "addPins c =
     (case m_containerItem c of
        None \<Rightarrow> c
      | Some item \<Rightarrow> addPins_loop (recurseObjects (children item)) c)"

text \<open>
  \<^verbatim>\<open>disconnect(pin, SIGNAL(valueChanged), this, SLOT(pinChange))\<close> removes every connection
  of that pin to the slot.
\<close>

definition removePins :: "QHalRemoteComponent \<Rightarrow> QHalRemoteComponent" where
  "removePins c =
     c\<lparr>connections := filter (\<lambda>r. r \<notin> set (map snd (m_pinsByName c))) (connections c),
       m_pinsByHandle := Map.empty,
       m_pinsByName := []\<rparr>"

definition unsyncPins :: "QHalRemoteComponent \<Rightarrow> QHalRemoteComponent" where
  "unsyncPins c =
     c\<lparr>heap := fold (\<lambda>(n, r) h. setSynced r False h) (m_pinsByName c) (heap c)\<rparr>"

subsection \<open>Heartbeat timers, state and error\<close>

definition startHalrcmdHeartbeat :: "QHalRemoteComponent \<Rightarrow> QHalRemoteComponent" where
  "startHalrcmdHeartbeat c =
     (let c1 = c\<lparr>m_halrcmdPingOutstanding := False\<rparr> in
      if m_heartbeatPeriod c1 > 0
      then c1\<lparr>m_halrcmdHeartbeatTimer := \<lparr>isActive = True, interval = m_heartbeatPeriod c1\<rparr>\<rparr>
      else c1)"

definition stopHalrcmdHeartbeat :: "QHalRemoteComponent \<Rightarrow> QHalRemoteComponent" where
  "stopHalrcmdHeartbeat c =
     c\<lparr>m_halrcmdHeartbeatTimer := (m_halrcmdHeartbeatTimer c)\<lparr>isActive := False\<rparr>\<rparr>"

definition startHalrcompHeartbeat :: "QHalRemoteComponent \<Rightarrow> int \<Rightarrow> QHalRemoteComponent" where
  "startHalrcompHeartbeat c ival =
     (let c1 = c\<lparr>m_halrcompHeartbeatTimer := (m_halrcompHeartbeatTimer c)\<lparr>isActive := False\<rparr>,
                 m_halrcompPingOutstanding := False\<rparr> in
      if ival > 0
      then c1\<lparr>m_halrcompHeartbeatTimer := \<lparr>isActive = True, interval = ival\<rparr>\<rparr>
      else c1)"

definition stopHalrcompHeartbeat :: "QHalRemoteComponent \<Rightarrow> QHalRemoteComponent" where
  "stopHalrcompHeartbeat c =
     c\<lparr>m_halrcompHeartbeatTimer := (m_halrcompHeartbeatTimer c)\<lparr>isActive := False\<rparr>\<rparr>"

text \<open>Stopping and starting an active timer restarts its countdown and changes no member.\<close>

definition refreshHalrcompHeartbeat :: "QHalRemoteComponent \<Rightarrow> QHalRemoteComponent" where
  "refreshHalrcompHeartbeat c =
     (if isActive (m_halrcompHeartbeatTimer c)
      then c\<lparr>m_halrcompHeartbeatTimer := (m_halrcompHeartbeatTimer c)\<lparr>isActive := True\<rparr>\<rparr>
      else c)"

definition updateState :: "QHalRemoteComponent \<Rightarrow> State \<Rightarrow> QHalRemoteComponent" where
  "updateState c state =
     (if state \<noteq> m_connectionState c then
        (let c1 = (if m_connectionState c = Connected then unsyncPins c else c);
             c2 = c1\<lparr>m_connectionState := state\<rparr>
         in if m_connectionState c2 = Connected then startHalrcmdHeartbeat c2
            else stopHalrcompHeartbeat (stopHalrcmdHeartbeat c2))
      else c)"

definition updateError ::
  "QHalRemoteComponent \<Rightarrow> ConnectionError \<Rightarrow> string \<Rightarrow> QHalRemoteComponent" where
  "updateError c error errorString = c\<lparr>m_error := error, m_errorString := errorString\<rparr>"

definition zmq_errorString :: "zmq_error \<Rightarrow> string" where
  "zmq_errorString e = ''Error '' @ QString_number (fst e) @ '': '' @ snd e"

definition pollError :: "QHalRemoteComponent \<Rightarrow> int \<Rightarrow> string \<Rightarrow> QHalRemoteComponent" where
  "pollError c errorNum errorMsg =
     updateState (updateError c SocketError (zmq_errorString (errorNum, errorMsg))) Error"

subsection \<open>Sockets\<close>

text \<open>
  Whether \<^verbatim>\<open>connectTo\<close> or \<^verbatim>\<open>sendMessage\<close> throws is decided by the transport: the
  functions take the thrown \<^verbatim>\<open>zmq::error_t\<close>, if any, as an argument.
\<close>

definition connectSockets ::
  "QHalRemoteComponent \<Rightarrow> zmq_error option \<Rightarrow> QHalRemoteComponent \<times> bool" where
  "connectSockets c thrown =
     (let c1 = c\<lparr>m_context := Some True, m_halrcmdSocket := Some False,
                 m_halrcompSocket := Some False, halrcomp_topics := []\<rparr> in
      case thrown of
        Some e \<Rightarrow> (updateState (updateError c1 SocketError (zmq_errorString e)) Error, False)
      | None \<Rightarrow> (c1\<lparr>m_halrcompSocket := Some True, m_halrcmdSocket := Some True\<rparr>, True))"

definition disconnectSockets :: "QHalRemoteComponent \<Rightarrow> QHalRemoteComponent" where
  "disconnectSockets c =
     (let c1 = (if m_halrcmdSocket c \<noteq> None then c\<lparr>m_halrcmdSocket := None\<rparr> else c);
          c2 = (if m_halrcompSocket c1 \<noteq> None
                then c1\<lparr>m_halrcompSocket := None, halrcomp_topics := []\<rparr> else c1)
      in if m_context c2 \<noteq> None then c2\<lparr>m_context := None\<rparr> else c2)"

definition sendHalrcmdMessage ::
  "QHalRemoteComponent \<Rightarrow> pb_Container \<Rightarrow> zmq_error option \<Rightarrow> fault + QHalRemoteComponent" where
  "sendHalrcmdMessage c data thrown =
     (case m_halrcmdSocket c of
        None \<Rightarrow> Inl NullPointerDereference
      | Some _ \<Rightarrow>
          (case thrown of
             None \<Rightarrow> Inr (c\<lparr>halrcmd_sent := halrcmd_sent c @ [data]\<rparr>)
           | Some e \<Rightarrow> Inr (updateState (updateError c SocketError (zmq_errorString e)) Error)))"

definition subscribe :: "QHalRemoteComponent \<Rightarrow> fault + QHalRemoteComponent" where
  "subscribe c =
     (let c1 = c\<lparr>m_sState := Trying\<rparr> in
      case m_halrcompSocket c1 of
        None \<Rightarrow> Inl NullPointerDereference
      | Some _ \<Rightarrow> Inr (c1\<lparr>halrcomp_topics := m_name c1 # halrcomp_topics c1\<rparr>))"

definition unsubscribe :: "QHalRemoteComponent \<Rightarrow> fault + QHalRemoteComponent" where
  "unsubscribe c =
     (let c1 = c\<lparr>m_sState := Down\<rparr> in
      case m_halrcompSocket c1 of
        None \<Rightarrow> Inl NullPointerDereference
      | Some _ \<Rightarrow> Inr (c1\<lparr>halrcomp_topics := remove1 (m_name c1) (halrcomp_topics c1)\<rparr>))"

text \<open>Sequencing of steps that may fault: the first fault ends the call.\<close>

definition and_then :: "fault + 'a \<Rightarrow> ('a \<Rightarrow> fault + 'b) \<Rightarrow> fault + 'b" where
  "and_then r f = (case r of Inl e \<Rightarrow> Inl e | Inr x \<Rightarrow> f x)"

subsection \<open>Outgoing messages\<close>

text \<open>
  \<^verbatim>\<open>QString::arg(const QString &)\<close> of Qt replaces every occurrence of the
  lowest-numbered place marker of the string by the argument, and returns the string
  as it is when it holds no place marker. A place marker is \<open>%\<close>, an optional \<open>L\<close>,
  and one or two decimal digits. \<open>arg_escape\<close> reads the text that follows a \<open>%\<close>: the
  number of the marker and how many characters it takes. \<open>findArgEscapes\<close> lists the
  numbers of the markers of a string and \<open>replaceArgEscapes\<close> replaces the markers of
  one number, both scanning from left to right as Qt does.
\<close>

definition digitValue :: "char \<Rightarrow> nat option" where
  "digitValue ch =
     (let n = (of_char ch :: nat) in if 48 \<le> n \<and> n \<le> 57 then Some (n - 48) else None)"

definition arg_escape :: "string \<Rightarrow> (nat \<times> nat) option" where
  "arg_escape s =
     (let (l, s1) = (case s of
                       c # t \<Rightarrow> if c = CHR ''L'' then (1, t) else (0, s)
                     | [] \<Rightarrow> (0, s))
      in case s1 of
           [] \<Rightarrow> None
         | d # t \<Rightarrow>
             (case digitValue d of
                None \<Rightarrow> None
              | Some a \<Rightarrow>
                  (case t of
                     [] \<Rightarrow> Some (a, l + 1)
                   | d2 # _ \<Rightarrow>
                       (case digitValue d2 of
                          None \<Rightarrow> Some (a, l + 1)
                        | Some b \<Rightarrow> Some (10 * a + b, l + 2)))))"

function findArgEscapes :: "string \<Rightarrow> nat list" where
  "findArgEscapes [] = []"
| "findArgEscapes (c # s) =
     (if c = CHR ''%'' then
        (case arg_escape s of
           None \<Rightarrow> findArgEscapes s
         | Some (n, len) \<Rightarrow> n # findArgEscapes (drop len s))
      else findArgEscapes s)"
  by pat_completeness auto
termination
  by (relation "measure length") auto

function replaceArgEscapes :: "nat \<Rightarrow> string \<Rightarrow> string \<Rightarrow> string" where
  "replaceArgEscapes m a [] = []"
| "replaceArgEscapes m a (c # s) =
     (if c = CHR ''%'' then
        (case arg_escape s of
           None \<Rightarrow> c # replaceArgEscapes m a s
         | Some (n, len) \<Rightarrow>
             (if n = m then a @ replaceArgEscapes m a (drop len s)
              else c # take len s @ replaceArgEscapes m a (drop len s)))
      else c # replaceArgEscapes m a s)"
  by pat_completeness auto
termination
  by (relation "measure (\<lambda>(m, a, s). length s)") auto

definition QString_arg :: "string \<Rightarrow> string \<Rightarrow> string" where
  "QString_arg s a =
     (case findArgEscapes s of
        [] \<Rightarrow> s
      | e # es \<Rightarrow> replaceArgEscapes (fold min es e) a s)"

text \<open>\<^verbatim>\<open>QString("%1.%2").arg(m_name).arg(pin->name())\<close>.\<close>

definition qualified_name :: "string \<Rightarrow> string \<Rightarrow> string" where
  "qualified_name cname pname = QString_arg (QString_arg ''%1.%2'' cname) pname"

definition set_typed_value :: "QVariantConversions \<Rightarrow> QHalPin \<Rightarrow> pb_Pin \<Rightarrow> pb_Pin" where
  "set_typed_value qt pin halPin =
     (if pin_type pin = Float then halPin\<lparr>pb_halfloat := Some (toDouble qt (pin_value pin))\<rparr>
      else if pin_type pin = Bit then halPin\<lparr>pb_halbit := Some (toBool qt (pin_value pin))\<rparr>
      else if pin_type pin = S32 then halPin\<lparr>pb_hals32 := Some (toInt qt (pin_value pin))\<rparr>
      else if pin_type pin = U32 then halPin\<lparr>pb_halu32 := Some (toUInt qt (pin_value pin))\<rparr>
      else halPin)"

definition bind_pin :: "QVariantConversions \<Rightarrow> string \<Rightarrow> QHalPin \<Rightarrow> pb_Pin" where
  "bind_pin qt cname pin =
     set_typed_value qt pin
       (new_Pin\<lparr>pb_name := Some (qualified_name cname (pin_name pin)),
                pb_type := Some (pin_type pin),
                pb_dir := Some (pin_direction pin)\<rparr>)"

definition bind_message :: "QVariantConversions \<Rightarrow> QHalRemoteComponent \<Rightarrow> pb_Container" where
  "bind_message qt c =
     (new_Container MT_HALRCOMP_BIND)
       \<lparr>msg_comp :=
          [\<lparr>comp_name = Some (m_name c),
            comp_pin = map (\<lambda>(n, r). bind_pin qt (m_name c) (heap c r)) (m_pinsByName c)\<rparr>]\<rparr>"

definition bind ::
  "QVariantConversions \<Rightarrow> QHalRemoteComponent \<Rightarrow> zmq_error option
     \<Rightarrow> fault + QHalRemoteComponent" where
  "bind qt c thrown = sendHalrcmdMessage c (bind_message qt c) thrown"

definition set_message ::
  "QVariantConversions \<Rightarrow> QHalRemoteComponent \<Rightarrow> pin_ref \<Rightarrow> pb_Container" where
  "set_message qt c sender =
     (let pin = heap c sender in
      (new_Container MT_HALRCOMP_SET)
        \<lparr>msg_pin :=
           [set_typed_value qt pin
              (new_Pin\<lparr>pb_handle := Some (pin_handle pin),
                       pb_name := Some (qualified_name (m_name c) (pin_name pin)),
                       pb_type := Some (pin_type pin)\<rparr>)]\<rparr>)"

text \<open>The slot of the pins' \<^verbatim>\<open>valueChanged\<close> signal; \<open>sender\<close> is \<^verbatim>\<open>QObject::sender()\<close>.\<close>

definition pinChange ::
  "QVariantConversions \<Rightarrow> QHalRemoteComponent \<Rightarrow> pin_ref \<Rightarrow> zmq_error option
     \<Rightarrow> fault + QHalRemoteComponent" where
  "pinChange qt c sender thrown =
     (if m_connectionState c \<noteq> Connected then Inr c
      else if pin_direction (heap c sender) = In then Inr c
      else sendHalrcmdMessage c (set_message qt c sender) thrown)"

subsection \<open>Incoming pin values\<close>

text \<open>
  The release build: the debug trace of \<^verbatim>\<open>pinUpdate\<close> is compiled out. \<open>typed_value\<close> is
  the chain of \<^verbatim>\<open>has_halfloat\<close>, \<^verbatim>\<open>has_halbit\<close>, \<^verbatim>\<open>has_hals32\<close>, \<^verbatim>\<open>has_halu32\<close> tests: the
  first value field present, as a \<^verbatim>\<open>QVariant\<close>; a pin is dereferenced only when there is
  one.
\<close>

definition typed_value :: "pb_Pin \<Rightarrow> QVariant option" where
  "typed_value remotePin =
     (case pb_halfloat remotePin of
        Some d \<Rightarrow> Some (QVariant_double d)
      | None \<Rightarrow>
          (case pb_halbit remotePin of
             Some b \<Rightarrow> Some (QVariant_bool b)
           | None \<Rightarrow>
               (case pb_hals32 remotePin of
                  Some i \<Rightarrow> Some (QVariant_int i)
                | None \<Rightarrow>
                    (case pb_halu32 remotePin of
                       Some u \<Rightarrow> Some (QVariant_uint u)
                     | None \<Rightarrow> None))))"

definition pinUpdate ::
  "QHalRemoteComponent \<Rightarrow> pb_Pin \<Rightarrow> pin_ref option \<Rightarrow> fault + QHalRemoteComponent" where
  "pinUpdate c remotePin localPin =
     (case typed_value remotePin of
        None \<Rightarrow> Inr c
      | Some v \<Rightarrow>
          (case localPin of
             None \<Rightarrow> Inl NullPointerDereference
           | Some r \<Rightarrow> Inr (c\<lparr>heap := setValue r v True (heap c)\<rparr>)))"

subsection \<open>Session start and stop\<close>

definition start ::
  "QVariantConversions \<Rightarrow> QHalRemoteComponent \<Rightarrow> zmq_error option \<Rightarrow> zmq_error option
     \<Rightarrow> fault + QHalRemoteComponent" where
  "start qt c connectThrown sendThrown =
     (let c1 = updateState (c\<lparr>m_cState := Trying\<rparr>) Connecting;
          (c2, ok) = connectSockets c1 connectThrown
      in if ok then bind qt (addPins c2) sendThrown else Inr c2)"

definition stop :: "QHalRemoteComponent \<Rightarrow> QHalRemoteComponent" where
  "stop c =
     (let c1 = stopHalrcmdHeartbeat c;
          c2 = stopHalrcompHeartbeat c1;
          c3 = disconnectSockets c2;
          c4 = removePins c3;
          c5 = updateState c4 Disconnected
      in updateError c5 NoError [])"

definition setReady ::
  "QVariantConversions \<Rightarrow> QHalRemoteComponent \<Rightarrow> bool \<Rightarrow> zmq_error option
     \<Rightarrow> zmq_error option \<Rightarrow> fault + QHalRemoteComponent" where
  "setReady qt c arg connectThrown sendThrown =
     (if m_ready c \<noteq> arg then
        (let c1 = c\<lparr>m_ready := arg\<rparr> in
         if m_componentCompleted c1 = False then Inr c1
         else if m_ready c1 then start qt c1 connectThrown sendThrown
         else Inr (stop c1))
      else Inr c)"

definition componentComplete ::
  "QVariantConversions \<Rightarrow> QHalRemoteComponent \<Rightarrow> zmq_error option \<Rightarrow> zmq_error option
     \<Rightarrow> fault + QHalRemoteComponent" where
  "componentComplete qt c connectThrown sendThrown =
     (let c1 = c\<lparr>m_componentCompleted := True\<rparr> in
      if m_ready c1 = True then start qt c1 connectThrown sendThrown else Inr c1)"

subsection \<open>Messages of the update socket\<close>

fun incrementalUpdate_pins ::
  "QHalRemoteComponent \<Rightarrow> pb_Pin list \<Rightarrow> fault + QHalRemoteComponent" where
  "incrementalUpdate_pins c [] = Inr c"
| "incrementalUpdate_pins c (remotePin # pins) =
     and_then (pinUpdate c remotePin (m_pinsByHandle c (handle_of remotePin)))
       (\<lambda>c1. incrementalUpdate_pins c1 pins)"

definition strip_comp_prefix :: "string \<Rightarrow> string" where
  "strip_comp_prefix name =
     (let dotIndex = indexOf name CHR ''.'' in
      if dotIndex \<noteq> - 1 then mid name (dotIndex + 1) else name)"

definition fullUpdate_pin ::
  "QHalRemoteComponent \<Rightarrow> pb_Pin \<Rightarrow> fault + QHalRemoteComponent" where
  "fullUpdate_pin c remotePin =
     (let name = strip_comp_prefix (name_of remotePin);
          localPin = QMap_value (m_pinsByName c) name
      in case localPin of
           None \<Rightarrow> Inl NullPointerDereference
         | Some r \<Rightarrow>
             pinUpdate
               (c\<lparr>heap := setHandle r (handle_of remotePin) (heap c),
                  m_pinsByHandle := (m_pinsByHandle c)(handle_of remotePin \<mapsto> r)\<rparr>)
               remotePin localPin)"

fun fullUpdate_pins ::
  "QHalRemoteComponent \<Rightarrow> pb_Pin list \<Rightarrow> fault + QHalRemoteComponent" where
  "fullUpdate_pins c [] = Inr c"
| "fullUpdate_pins c (remotePin # pins) =
     and_then (fullUpdate_pin c remotePin) (\<lambda>c1. fullUpdate_pins c1 pins)"

definition subscription_up :: "QHalRemoteComponent \<Rightarrow> QHalRemoteComponent" where
  "subscription_up c =
     (if m_sState c \<noteq> Up
      then updateState (updateError (c\<lparr>m_sState := Up\<rparr>) NoError []) Connected
      else c)"

fun fullUpdate_comps ::
  "QHalRemoteComponent \<Rightarrow> pb_Component list \<Rightarrow> fault + QHalRemoteComponent" where
  "fullUpdate_comps c [] = Inr c"
| "fullUpdate_comps c (component # comps) =
     and_then (fullUpdate_pins c (comp_pin component))
       (\<lambda>c1. fullUpdate_comps (subscription_up c1) comps)"

definition note_lines :: "string list \<Rightarrow> string" where
  "note_lines notes = concat (map (\<lambda>n. n @ [CHR 0x0A]) notes)"

definition halrcompMessageReceived ::
  "QHalRemoteComponent \<Rightarrow> string \<Rightarrow> pb_Container \<Rightarrow> fault + QHalRemoteComponent" where
  "halrcompMessageReceived c topic m_rx =
     (if msg_type m_rx = MT_HALRCOMP_INCREMENTAL_UPDATE then
        and_then (incrementalUpdate_pins c (msg_pin m_rx))
          (\<lambda>c1. Inr (refreshHalrcompHeartbeat (subscription_up c1)))
      else if msg_type m_rx = MT_HALRCOMP_FULL_UPDATE then
        and_then (fullUpdate_comps c (msg_comp m_rx))
          (\<lambda>c1. case msg_pparams m_rx of
                  Some pparams \<Rightarrow> Inr (startHalrcompHeartbeat c1 (keepalive_timer_of pparams))
                | None \<Rightarrow> Inr c1)
      else if msg_type m_rx = MT_PING then Inr (refreshHalrcompHeartbeat c)
      else if msg_type m_rx = MT_HALRCOMMAND_ERROR then
        Inr (updateState
               (updateError (c\<lparr>m_sState := Down\<rparr>) CommandError (note_lines (msg_note m_rx)))
               Error)
      else Inr c)"

subsection \<open>Messages of the command socket\<close>

definition halrcmdMessageReceived ::
  "QHalRemoteComponent \<Rightarrow> pb_Container \<Rightarrow> fault + QHalRemoteComponent" where
  "halrcmdMessageReceived c m_rx =
     (if msg_type m_rx = MT_PING_ACKNOWLEDGE then
        (let c1 = c\<lparr>m_cState := Up, m_halrcmdPingOutstanding := False\<rparr> in
         if m_connectionState c1 = Error \<and> m_error c1 = TimeoutError
         then subscribe (updateState (updateError c1 NoError []) Connected)
         else Inr c1)
      else if msg_type m_rx = MT_HALRCOMP_BIND_CONFIRM then subscribe (c\<lparr>m_cState := Up\<rparr>)
      else if msg_type m_rx = MT_HALRCOMP_BIND_REJECT \<or> msg_type m_rx = MT_HALRCOMP_SET_REJECT
      then
        (let errorString = note_lines (msg_note m_rx);
             c1 = c\<lparr>m_cState := Down\<rparr>;
             c2 = (if msg_type m_rx = MT_HALRCOMP_BIND_REJECT
                   then updateError c1 BindError errorString
                   else updateError c1 PinChangeError errorString)
         in Inr (updateState c2 Error))
      else Inr c)"

subsection \<open>Heartbeat ticks\<close>

definition halrcmdHeartbeatTimerTick ::
  "QHalRemoteComponent \<Rightarrow> zmq_error option \<Rightarrow> fault + QHalRemoteComponent" where
  "halrcmdHeartbeatTimerTick c thrown =
     and_then
       (if m_halrcmdPingOutstanding c then
          and_then (unsubscribe (c\<lparr>m_cState := Trying\<rparr>))
            (\<lambda>c1. Inr (updateState
                         (updateError c1 TimeoutError ''Halrcmd service timed out'') Error))
        else Inr c)
       (\<lambda>c2. and_then (sendHalrcmdMessage c2 (new_Container MT_PING) thrown)
               (\<lambda>c3. Inr (c3\<lparr>m_halrcmdPingOutstanding := True\<rparr>)))"

definition halrcompHeartbeatTimerTick ::
  "QHalRemoteComponent \<Rightarrow> zmq_error option \<Rightarrow> fault + QHalRemoteComponent" where
  "halrcompHeartbeatTimerTick c thrown =
     and_then (unsubscribe (c\<lparr>m_cState := Trying\<rparr>))
       (\<lambda>c1. and_then
               (sendHalrcmdMessage
                  (updateState
                     (updateError c1 TimeoutError ''Halrcomp service timed out'') Error)
                  (new_Container MT_PING) thrown)
               (\<lambda>c2. Inr (c2\<lparr>m_halrcompPingOutstanding := True\<rparr>)))"

subsection \<open>The event loop\<close>

text \<open>
  The controller runs on one event loop: the calls below arrive one at a time. An event
  carries what the outside decides: the message received, the value written, and the
  exception a socket operation of the handler throws, if any.
\<close>

datatype event =
    SetReady bool "zmq_error option" "zmq_error option"
  | ComponentComplete "zmq_error option" "zmq_error option"
  | HalrcmdMessage pb_Container
  | HalrcompMessage string pb_Container
  | HalrcmdHeartbeatTimeout "zmq_error option"
  | HalrcompHeartbeatTimeout "zmq_error option"
  | PinWrite pin_ref QVariant "zmq_error option"
  | PollError int string

text \<open>
  A local write stores the value in the pin and raises \<^verbatim>\<open>valueChanged\<close>, which calls
  the slot once for every connection of that pin.
\<close>

fun emit_valueChanged ::
  "QVariantConversions \<Rightarrow> pin_ref list \<Rightarrow> pin_ref \<Rightarrow> zmq_error option
     \<Rightarrow> QHalRemoteComponent \<Rightarrow> fault + QHalRemoteComponent" where
  "emit_valueChanged qt [] sender thrown c = Inr c"
| "emit_valueChanged qt (r # slots) sender thrown c =
     (if r = sender
      then and_then (pinChange qt c sender thrown) (emit_valueChanged qt slots sender thrown)
      else emit_valueChanged qt slots sender thrown c)"

definition pinWrite ::
  "QVariantConversions \<Rightarrow> QHalRemoteComponent \<Rightarrow> pin_ref \<Rightarrow> QVariant \<Rightarrow> zmq_error option
     \<Rightarrow> fault + QHalRemoteComponent" where
  "pinWrite qt c r v thrown =
     emit_valueChanged qt (connections c) r thrown (c\<lparr>heap := setValue r v False (heap c)\<rparr>)"

text \<open>
  A signal reaches its slot only while its source exists and is connected: a message
  while the socket's \<^verbatim>\<open>messageReceived\<close> is connected, a tick while the timer is active,
  a poll error while the context exists. \<^verbatim>\<open>componentComplete\<close> is called once.
\<close>

fun enabled :: "QHalRemoteComponent \<Rightarrow> event \<Rightarrow> bool" where
  "enabled c (SetReady arg ct st) = True"
| "enabled c (ComponentComplete ct st) = (\<not> m_componentCompleted c)"
| "enabled c (HalrcmdMessage m) = (m_halrcmdSocket c = Some True)"
| "enabled c (HalrcompMessage topic m) = (m_halrcompSocket c = Some True)"
| "enabled c (HalrcmdHeartbeatTimeout st) = isActive (m_halrcmdHeartbeatTimer c)"
| "enabled c (HalrcompHeartbeatTimeout st) = isActive (m_halrcompHeartbeatTimer c)"
| "enabled c (PinWrite r v st) = True"
| "enabled c (PollError n msg) = (m_context c = Some True)"

fun dispatch ::
  "QVariantConversions \<Rightarrow> event \<Rightarrow> QHalRemoteComponent \<Rightarrow> fault + QHalRemoteComponent" where
  "dispatch qt (SetReady arg ct st) c = setReady qt c arg ct st"
| "dispatch qt (ComponentComplete ct st) c = componentComplete qt c ct st"
| "dispatch qt (HalrcmdMessage m) c = halrcmdMessageReceived c m"
| "dispatch qt (HalrcompMessage topic m) c = halrcompMessageReceived c topic m"
| "dispatch qt (HalrcmdHeartbeatTimeout st) c = halrcmdHeartbeatTimerTick c st"
| "dispatch qt (HalrcompHeartbeatTimeout st) c = halrcompHeartbeatTimerTick c st"
| "dispatch qt (PinWrite r v st) c = pinWrite qt c r v st"
| "dispatch qt (PollError n msg) c = Inr (pollError c n msg)"

text \<open>
  Running a sequence of events: \<open>None\<close> when an event of the sequence cannot occur in
  the state reached, or when a handler faults (the process does not continue).
\<close>

fun run ::
  "QVariantConversions \<Rightarrow> event list \<Rightarrow> QHalRemoteComponent \<Rightarrow> QHalRemoteComponent option"
  where
  "run qt [] c = Some c"
| "run qt (e # es) c =
     (if enabled c e
      then (case dispatch qt e c of Inl f \<Rightarrow> None | Inr c1 \<Rightarrow> run qt es c1)
      else None)"

subsection \<open>An example session\<close>

text \<open>
  Scenario S1 of the specification with two bit pins: \<open>x\<close> (direction Out, at address 1)
  and \<open>y\<close> (direction In, at address 2) below the container item of a component named
  \<open>comp\<close>. The conversions used for the examples return the stored value when its
  representation is the one asked for.
\<close>

definition example_conversions :: QVariantConversions where
  "example_conversions =
     \<lparr>toDouble = (\<lambda>v. case v of QVariant_double d \<Rightarrow> d | _ \<Rightarrow> 0),
      toBool = (\<lambda>v. case v of QVariant_bool b \<Rightarrow> b | _ \<Rightarrow> False),
      toInt = (\<lambda>v. case v of QVariant_int i \<Rightarrow> i | _ \<Rightarrow> 0),
      toUInt = (\<lambda>v. case v of QVariant_uint u \<Rightarrow> u | _ \<Rightarrow> 0)\<rparr>"

definition example_pin_x :: QHalPin where
  "example_pin_x =
     \<lparr>pin_name = ''x'', pin_type = Bit, pin_direction = Out, pin_value = QVariant_bool False,
      pin_enabled = True, pin_synced = False, pin_handle = 0\<rparr>"

definition example_pin_y :: QHalPin where
  "example_pin_y =
     \<lparr>pin_name = ''y'', pin_type = Bit, pin_direction = In, pin_value = QVariant_bool False,
      pin_enabled = True, pin_synced = False, pin_handle = 0\<rparr>"

definition example_heap :: "pin_ref \<Rightarrow> QHalPin" where
  "example_heap = (\<lambda>r. if r = 2 then example_pin_y else example_pin_x)"

definition example_component :: QHalRemoteComponent where
  "example_component =
     (QHalRemoteComponent_new (QObject None [QObject (Some 1) [], QObject (Some 2) []])
        example_heap)\<lparr>m_name := ''comp''\<rparr>"

definition bit_pin_message :: "string \<Rightarrow> 32 word \<Rightarrow> bool \<Rightarrow> pb_Pin" where
  "bit_pin_message n h b = new_Pin\<lparr>pb_name := Some n, pb_handle := Some h, pb_halbit := Some b\<rparr>"

definition full_update_message :: "pb_Pin list \<Rightarrow> pb_Container" where
  "full_update_message ps =
     (new_Container MT_HALRCOMP_FULL_UPDATE)
       \<lparr>msg_comp := [\<lparr>comp_name = Some ''comp'', comp_pin = ps\<rparr>]\<rparr>"

definition incremental_update_message :: "pb_Pin list \<Rightarrow> pb_Container" where
  "incremental_update_message ps = (new_Container MT_HALRCOMP_INCREMENTAL_UPDATE)\<lparr>msg_pin := ps\<rparr>"

text \<open>
  Ready is raised, the bind is confirmed, and the first full update assigns the handles
  10 and 11 and the values true and false.
\<close>

definition example_binding :: "event list" where
  "example_binding =
     [ComponentComplete None None,
      SetReady True None None,
      HalrcmdMessage (new_Container MT_HALRCOMP_BIND_CONFIRM)]"

definition example_session :: "event list" where
  "example_session =
     example_binding
     @ [HalrcompMessage ''comp''
          (full_update_message
             [bit_pin_message ''comp.x'' 10 True, bit_pin_message ''comp.y'' 11 False])]"

definition example_connected :: QHalRemoteComponent where
  "example_connected = the (run example_conversions example_session example_component)"

text \<open>The states after the bind is confirmed, and after two command heartbeat ticks
  of the connected session with no PING_ACK in between.\<close>

definition example_bound :: QHalRemoteComponent where
  "example_bound = the (run example_conversions example_binding example_component)"

definition example_timeout :: "event list" where
  "example_timeout =
     example_session @ [HalrcmdHeartbeatTimeout None, HalrcmdHeartbeatTimeout None]"

definition example_timed_out :: QHalRemoteComponent where
  "example_timed_out = the (run example_conversions example_timeout example_component)"

definition example_pinged :: QHalRemoteComponent where
  "example_pinged =
     the (run example_conversions (example_session @ [HalrcmdHeartbeatTimeout None])
            example_component)"

text \<open>
  A rejected SET followed by an incremental update for handle 10, and a full ready
  cycle (ready lowered and raised again) of the connected session.
\<close>

definition example_rejected :: "event list" where
  "example_rejected =
     example_session
     @ [HalrcmdMessage (new_Container MT_HALRCOMP_SET_REJECT),
        HalrcompMessage ''comp''
          (incremental_update_message [new_Pin\<lparr>pb_handle := Some 10, pb_halbit := Some False\<rparr>])]"

definition example_after_reject :: QHalRemoteComponent where
  "example_after_reject = the (run example_conversions example_rejected example_component)"

definition example_restart :: "event list" where
  "example_restart = example_session @ [SetReady False None None, SetReady True None None]"

definition example_restarted :: QHalRemoteComponent where
  "example_restarted = the (run example_conversions example_restart example_component)"

text \<open>A second full update of the connected session that numbers the pins 20 and 21.\<close>

definition example_renumbering_update :: pb_Container where
  "example_renumbering_update =
     full_update_message [bit_pin_message ''comp.x'' 20 True, bit_pin_message ''comp.y'' 21 False]"

definition example_renumbering :: "event list" where
  "example_renumbering = example_session @ [HalrcompMessage ''comp'' example_renumbering_update]"

definition example_renumbered :: QHalRemoteComponent where
  "example_renumbered = the (run example_conversions example_renumbering example_component)"

text \<open>
  Full updates for the session whose bind is confirmed: the first one of the example;
  one that carries pin \<open>x\<close> twice; one that carries a pin \<open>z\<close> that is not registered.
  And the same component under the name \<open>my.comp\<close>, with the full update that answers
  its bind, and under the name \<open>c%1\<close>, once ready is raised.
\<close>

definition example_first_update :: pb_Container where
  "example_first_update =
     full_update_message [bit_pin_message ''comp.x'' 10 True, bit_pin_message ''comp.y'' 11 False]"

definition example_duplicate_update :: pb_Container where
  "example_duplicate_update =
     full_update_message
       [bit_pin_message ''comp.x'' 10 True, bit_pin_message ''comp.x'' 12 False,
        bit_pin_message ''comp.y'' 11 False]"

definition example_duplicated :: QHalRemoteComponent where
  "example_duplicated =
     the (run example_conversions
            (example_binding @ [HalrcompMessage ''comp'' example_duplicate_update])
            example_component)"

definition example_unknown_pin_update :: pb_Container where
  "example_unknown_pin_update =
     full_update_message [bit_pin_message ''comp.x'' 10 True, bit_pin_message ''comp.z'' 12 True]"

definition example_dotted_bound :: QHalRemoteComponent where
  "example_dotted_bound =
     the (run example_conversions example_binding (example_component\<lparr>m_name := ''my.comp''\<rparr>))"

definition example_marker_started :: QHalRemoteComponent where
  "example_marker_started =
     the (run example_conversions [ComponentComplete None None, SetReady True None None]
            (example_component\<lparr>m_name := ''c%1''\<rparr>))"

definition example_dotted_update :: pb_Container where
  "example_dotted_update = full_update_message [bit_pin_message ''my.comp.x'' 10 True]"

text \<open>
  The example component with the command heartbeat configured off, and its session
  with a first full update that announces a keepalive period of 2000 ms.
\<close>

definition example_unpaced :: QHalRemoteComponent where
  "example_unpaced = example_component\<lparr>m_heartbeatPeriod := 0\<rparr>"

definition example_keepalive_session :: "event list" where
  "example_keepalive_session =
     example_binding
     @ [HalrcompMessage ''comp''
          (example_first_update\<lparr>msg_pparams := Some \<lparr>keepalive_timer = Some 2000\<rparr>\<rparr>)]"

definition example_unpaced_connected :: QHalRemoteComponent where
  "example_unpaced_connected =
     the (run example_conversions example_keepalive_session example_unpaced)"

subsection \<open>The effect of the update loops on the store\<close>

text \<open>
  What the loops over the pin sub-messages do to the pin objects, as functions on the
  store alone; the lemmas below relate them to the handlers.
\<close>

definition apply_value ::
  "pb_Pin \<Rightarrow> pin_ref \<Rightarrow> (pin_ref \<Rightarrow> QHalPin) \<Rightarrow> (pin_ref \<Rightarrow> QHalPin)" where
  "apply_value p r h = (case typed_value p of None \<Rightarrow> h | Some v \<Rightarrow> setValue r v True h)"

fun incremental_heap ::
  "(32 word \<rightharpoonup> pin_ref) \<Rightarrow> pb_Pin list \<Rightarrow> (pin_ref \<Rightarrow> QHalPin) \<Rightarrow> (pin_ref \<Rightarrow> QHalPin)"
  where
  "incremental_heap bh [] h = h"
| "incremental_heap bh (p # ps) h =
     incremental_heap bh ps
       (case bh (handle_of p) of None \<Rightarrow> h | Some r \<Rightarrow> apply_value p r h)"

text \<open>
  For a full update: the pin that a sub-message addresses, the store and the handle
  index after the sub-messages of a list, the handle entries that the list carries, and
  the pin sub-messages of all components of an envelope in order.
\<close>

definition full_update_target :: "(string \<times> pin_ref) list \<Rightarrow> pb_Pin \<Rightarrow> pin_ref option" where
  "full_update_target names p = QMap_value names (strip_comp_prefix (name_of p))"

fun full_update_heap ::
  "(string \<times> pin_ref) list \<Rightarrow> pb_Pin list \<Rightarrow> (pin_ref \<Rightarrow> QHalPin) \<Rightarrow> (pin_ref \<Rightarrow> QHalPin)" where
  "full_update_heap names [] h = h"
| "full_update_heap names (p # ps) h =
     full_update_heap names ps
       (case full_update_target names p of
          None \<Rightarrow> h
        | Some r \<Rightarrow> apply_value p r (setHandle r (handle_of p) h))"

fun full_update_handles ::
  "(string \<times> pin_ref) list \<Rightarrow> pb_Pin list \<Rightarrow> (32 word \<rightharpoonup> pin_ref) \<Rightarrow> (32 word \<rightharpoonup> pin_ref)" where
  "full_update_handles names [] b = b"
| "full_update_handles names (p # ps) b =
     full_update_handles names ps
       (case full_update_target names p of None \<Rightarrow> b | Some r \<Rightarrow> b(handle_of p \<mapsto> r))"

definition carried_handles :: "(string \<times> pin_ref) list \<Rightarrow> pb_Pin list \<Rightarrow> (32 word \<times> pin_ref) list" where
  "carried_handles names ps =
     concat (map (\<lambda>p. case full_update_target names p of
                         None \<Rightarrow> [] | Some r \<Rightarrow> [(handle_of p, r)]) ps)"

definition envelope_pins :: "pb_Container \<Rightarrow> pb_Pin list" where
  "envelope_pins m = concat (map comp_pin (msg_comp m))"

text \<open>The command heartbeat is configured off and its timer is not running.\<close>

definition command_heartbeat_off :: "QHalRemoteComponent \<Rightarrow> bool" where
  "command_heartbeat_off c \<longleftrightarrow>
     m_heartbeatPeriod c = 0 \<and> \<not> isActive (m_halrcmdHeartbeatTimer c)"

text \<open>
  For the registration loop: the pins that \<open>addPins\<close> does not skip, and the name
  index after the loop has run over a list of pins.
\<close>

definition registrable :: "(pin_ref \<Rightarrow> QHalPin) \<Rightarrow> pin_ref \<Rightarrow> bool" where
  "registrable h r \<longleftrightarrow> pin_name (h r) \<noteq> [] \<and> pin_enabled (h r)"

fun register ::
  "(pin_ref \<Rightarrow> QHalPin) \<Rightarrow> pin_ref list \<Rightarrow> (string \<times> pin_ref) list \<Rightarrow> (string \<times> pin_ref) list"
  where
  "register h [] names = names"
| "register h (r # rs) names =
     register h rs (if registrable h r then QMap_insert (pin_name (h r)) r names else names)"

section \<open>Properties\<close>

subsection \<open>Local pin writes\<close>

lemma emit_valueChanged_idle:
  "m_connectionState c \<noteq> Connected \<or> pin_direction (heap c r) = In \<Longrightarrow>
   emit_valueChanged qt slots r thrown c = Inr c"
  by (induction slots) (auto simp: pinChange_def and_then_def)

lemma example_connected_state:
  "run example_conversions example_session example_component \<noteq> None"
  "m_connectionState example_connected = Connected"
  "m_pinsByName example_connected = [(''x'', 1), (''y'', 2)]"
  by (code_simp, code_simp, code_simp)

text \<open>
  Claim C2. For every local pin write: when the controller is not Connected at the time
  of the write, or the written pin has direction In, the slot \<open>pinChange\<close> returns with
  the controller unchanged, and the whole write emits nothing on the command socket.
  So a SET envelope is emitted only while Connected and only for an Out or IO pin.
\<close>

theorem pinChange_no_SET_unless_Connected_and_not_In:
  assumes "m_connectionState c \<noteq> Connected \<or> pin_direction (heap c r) = In"
  shows "pinChange qt c r thrown = Inr c
       \<and> (\<exists>c'. pinWrite qt c r v thrown = Inr c' \<and> halrcmd_sent c' = halrcmd_sent c)"
proof
  show "pinChange qt c r thrown = Inr c"
    using assms by (auto simp: pinChange_def)
next
  let ?c1 = "c\<lparr>heap := setValue r v False (heap c)\<rparr>"
  have "m_connectionState ?c1 \<noteq> Connected \<or> pin_direction (heap ?c1 r) = In"
    using assms by (auto simp: setValue_def)
  then have "emit_valueChanged qt (connections c) r thrown ?c1 = Inr ?c1"
    by (rule emit_valueChanged_idle)
  then show "\<exists>c'. pinWrite qt c r v thrown = Inr c' \<and> halrcmd_sent c' = halrcmd_sent c"
    by (simp add: pinWrite_def)
qed

theorem pinChange_no_SET_witness:
  "m_connectionState example_connected = Connected
   \<and> pin_direction (heap example_connected 2) = In
   \<and> pinChange example_conversions example_connected 2 None = Inr example_connected
   \<and> m_connectionState example_component \<noteq> Connected
   \<and> pinChange example_conversions example_component 1 None = Inr example_component"
proof -
  have d: "pin_direction (heap example_connected 2) = In"
    by code_simp
  have n: "m_connectionState example_component \<noteq> Connected"
    by code_simp
  from d have "m_connectionState example_connected \<noteq> Connected
      \<or> pin_direction (heap example_connected 2) = In" ..
  note a = pinChange_no_SET_unless_Connected_and_not_In [OF this]
  from n have "m_connectionState example_component \<noteq> Connected
      \<or> pin_direction (heap example_component 1) = In" ..
  note b = pinChange_no_SET_unless_Connected_and_not_In [OF this]
  from a b d n example_connected_state(2) show ?thesis
    by blast
qed

subsection \<open>Acknowledged pings\<close>

text \<open>
  Claim C5. When a PING_ACK arrives on the command socket while the controller is in
  state Error with error Timeout, the controller clears the error (kind NoError, empty
  message), becomes Connected and subscribes again to the component's topic. In every
  other combination of state and error a PING_ACK clears the outstanding-ping flag and
  leaves connectionState (and the error) as they were.
\<close>

theorem ping_acknowledge_recovers_from_timeout:
  assumes "msg_type m_rx = MT_PING_ACKNOWLEDGE"
  shows "(m_connectionState c = Error \<and> m_error c = TimeoutError
            \<and> m_halrcompSocket c \<noteq> None \<longrightarrow>
            (\<exists>c'. halrcmdMessageReceived c m_rx = Inr c'
               \<and> m_error c' = NoError \<and> m_errorString c' = []
               \<and> m_connectionState c' = Connected
               \<and> halrcomp_topics c' = m_name c # halrcomp_topics c
               \<and> m_halrcmdPingOutstanding c' = False))
       \<and> (\<not> (m_connectionState c = Error \<and> m_error c = TimeoutError) \<longrightarrow>
            (\<exists>c'. halrcmdMessageReceived c m_rx = Inr c'
               \<and> m_halrcmdPingOutstanding c' = False
               \<and> m_connectionState c' = m_connectionState c
               \<and> m_error c' = m_error c \<and> m_errorString c' = m_errorString c))"
  using assms
  by (auto simp: halrcmdMessageReceived_def subscribe_def updateState_def updateError_def
        startHalrcmdHeartbeat_def Let_def split: option.splits)


lemma example_timed_out_state:
  "run example_conversions example_timeout example_component \<noteq> None"
  "m_connectionState example_timed_out = Error"
  "m_error example_timed_out = TimeoutError"
  "m_halrcompSocket example_timed_out \<noteq> None"
  by (code_simp, code_simp, code_simp, code_simp)

theorem ping_acknowledge_witness:
  "msg_type (new_Container MT_PING_ACKNOWLEDGE) = MT_PING_ACKNOWLEDGE
   \<and> m_connectionState example_timed_out = Error \<and> m_error example_timed_out = TimeoutError
   \<and> m_halrcompSocket example_timed_out \<noteq> None
   \<and> (\<exists>c'. halrcmdMessageReceived example_timed_out (new_Container MT_PING_ACKNOWLEDGE) = Inr c'
          \<and> m_error c' = NoError \<and> m_connectionState c' = Connected)
   \<and> \<not> (m_connectionState example_connected = Error \<and> m_error example_connected = TimeoutError)
   \<and> (\<exists>c'. halrcmdMessageReceived example_connected (new_Container MT_PING_ACKNOWLEDGE) = Inr c'
          \<and> m_connectionState c' = m_connectionState example_connected)"
proof -
  have t: "msg_type (new_Container MT_PING_ACKNOWLEDGE) = MT_PING_ACKNOWLEDGE"
    by (simp add: new_Container_def)
  note a = ping_acknowledge_recovers_from_timeout [OF t, of example_timed_out]
  note b = ping_acknowledge_recovers_from_timeout [OF t, of example_connected]
  have n: "\<not> (m_connectionState example_connected = Error
              \<and> m_error example_connected = TimeoutError)"
    by (simp add: example_connected_state)
  from a b t n example_timed_out_state show ?thesis
    by blast
qed

subsection \<open>Command heartbeat timeout\<close>

text \<open>
  Claim C6, as stated, fails. In the example session two command heartbeat ticks pass
  with no PING_ACK: the second finds the ping outstanding and takes the controller to
  Error with error Timeout, and \<open>updateState\<close> stops both heartbeat timers on the way.
  No timer is active afterwards, so no further tick can fire and no further PING is
  emitted: a third tick is not an event of the state reached.
\<close>

theorem halrcmd_timeout_counterexample:
  "run example_conversions example_timeout example_component \<noteq> None
   \<and> m_halrcmdPingOutstanding example_timed_out
   \<and> m_connectionState example_timed_out = Error
   \<and> m_error example_timed_out = TimeoutError
   \<and> \<not> isActive (m_halrcmdHeartbeatTimer example_timed_out)
   \<and> \<not> isActive (m_halrcompHeartbeatTimer example_timed_out)
   \<and> run example_conversions (example_timeout @ [HalrcmdHeartbeatTimeout None])
         example_component = None"
  by code_simp

text \<open>
  Claim C6, amended. A command heartbeat tick that fires in state Connected with a ping
  outstanding takes the controller to Error with error Timeout, emits exactly one PING
  on the command socket and leaves the ping outstanding; it stops both heartbeat timers,
  so that no heartbeat tick is enabled in the state it leaves.
\<close>

theorem halrcmd_timeout_stops_heartbeat:
  assumes "m_halrcmdPingOutstanding c" and "m_connectionState c = Connected"
    and "m_halrcompSocket c \<noteq> None" and "m_halrcmdSocket c \<noteq> None"
  shows "\<exists>c'. halrcmdHeartbeatTimerTick c None = Inr c'
           \<and> m_connectionState c' = Error \<and> m_error c' = TimeoutError
           \<and> halrcmd_sent c' = halrcmd_sent c @ [new_Container MT_PING]
           \<and> m_halrcmdPingOutstanding c'
           \<and> \<not> isActive (m_halrcmdHeartbeatTimer c')
           \<and> \<not> isActive (m_halrcompHeartbeatTimer c')
           \<and> \<not> enabled c' (HalrcmdHeartbeatTimeout thrown)
           \<and> \<not> enabled c' (HalrcompHeartbeatTimeout thrown)"
  using assms
  by (auto simp: halrcmdHeartbeatTimerTick_def and_then_def unsubscribe_def updateState_def
      updateError_def sendHalrcmdMessage_def unsyncPins_def stopHalrcmdHeartbeat_def
      stopHalrcompHeartbeat_def Let_def split: option.splits)

lemma example_pinged_state:
  "m_halrcmdPingOutstanding example_pinged"
  "m_connectionState example_pinged = Connected"
  "m_halrcompSocket example_pinged \<noteq> None"
  "m_halrcmdSocket example_pinged \<noteq> None"
  by (code_simp, code_simp, code_simp, code_simp)

theorem halrcmd_timeout_witness:
  "m_halrcmdPingOutstanding example_pinged \<and> m_connectionState example_pinged = Connected
   \<and> m_halrcompSocket example_pinged \<noteq> None \<and> m_halrcmdSocket example_pinged \<noteq> None
   \<and> (\<exists>c'. halrcmdHeartbeatTimerTick example_pinged None = Inr c'
          \<and> m_connectionState c' = Error \<and> m_error c' = TimeoutError
          \<and> halrcmd_sent c' = halrcmd_sent example_pinged @ [new_Container MT_PING]
          \<and> \<not> isActive (m_halrcmdHeartbeatTimer c'))"
  using halrcmd_timeout_stops_heartbeat [OF example_pinged_state] example_pinged_state
  by blast

subsection \<open>Incremental updates\<close>

lemma pinUpdate_Some: "pinUpdate c p (Some r) = Inr (c\<lparr>heap := apply_value p r (heap c)\<rparr>)"
  by (simp add: pinUpdate_def apply_value_def split: option.splits)

lemma pinUpdate_no_value: "typed_value p = None \<Longrightarrow> pinUpdate c p lp = Inr c"
  by (simp add: pinUpdate_def)

lemma incrementalUpdate_pins_heap:
  "\<forall>p\<in>set ps. typed_value p \<noteq> None \<longrightarrow> m_pinsByHandle c (handle_of p) \<noteq> None \<Longrightarrow>
   incrementalUpdate_pins c ps
     = Inr (c\<lparr>heap := incremental_heap (m_pinsByHandle c) ps (heap c)\<rparr>)"
proof (induction ps arbitrary: c)
  case Nil
  show ?case by simp
next
  case (Cons p ps)
  show ?case
  proof (cases "m_pinsByHandle c (handle_of p)")
    case None
    with Cons.prems have "typed_value p = None" by auto
    with None Cons show ?thesis
      by (simp add: pinUpdate_no_value and_then_def)
  next
    case (Some r)
    let ?c1 = "c\<lparr>heap := apply_value p r (heap c)\<rparr>"
    have "\<forall>q\<in>set ps. typed_value q \<noteq> None \<longrightarrow> m_pinsByHandle ?c1 (handle_of q) \<noteq> None"
      using Cons.prems by simp
    from Cons.IH [OF this] Some show ?thesis
      by (simp add: pinUpdate_Some and_then_def)
  qed
qed

text \<open>
  Claim C8, evaluated on the code. The connected example session receives an
  INCREMENTAL_UPDATE whose first pin sub-message carries the handle 99, absent from the
  handle index, and whose second carries the known handle 10. \<^verbatim>\<open>QMap::value\<close> returns the
  null pointer for 99 and \<open>pinUpdate\<close> dereferences it: the handler faults, the
  sub-message is not ignored and the second one is never processed.
\<close>

theorem incremental_update_unknown_handle_faults:
  "m_connectionState example_connected = Connected
   \<and> m_pinsByHandle example_connected 99 = None
   \<and> m_pinsByHandle example_connected 10 = Some 1
   \<and> isl (halrcompMessageReceived example_connected ''comp''
          (incremental_update_message
             [new_Pin\<lparr>pb_handle := Some 99, pb_halbit := Some True\<rparr>,
              new_Pin\<lparr>pb_handle := Some 10, pb_halbit := Some False\<rparr>]))
   \<and> projl (halrcompMessageReceived example_connected ''comp''
          (incremental_update_message
             [new_Pin\<lparr>pb_handle := Some 99, pb_halbit := Some True\<rparr>,
              new_Pin\<lparr>pb_handle := Some 10, pb_halbit := Some False\<rparr>]))
       = NullPointerDereference"
  by code_simp

text \<open>
  An INCREMENTAL_UPDATE received while the subscription sub-state is not Up, whose pin
  sub-messages that carry a value all have handles known to the handle index, clears
  the error and takes the controller to Connected; the handle index is left as it was.
\<close>

lemma incremental_update_enters_Connected:
  assumes "msg_type m = MT_HALRCOMP_INCREMENTAL_UPDATE" and "m_sState c \<noteq> Up"
    and "\<forall>p\<in>set (msg_pin m). typed_value p \<noteq> None
           \<longrightarrow> m_pinsByHandle c (handle_of p) \<noteq> None"
  shows "\<exists>c'. halrcompMessageReceived c topic m = Inr c'
           \<and> m_connectionState c' = Connected \<and> m_error c' = NoError \<and> m_errorString c' = []
           \<and> m_sState c' = Up \<and> m_pinsByHandle c' = m_pinsByHandle c"
  using assms(1,2)
  by (simp add: incrementalUpdate_pins_heap [OF assms(3)] halrcompMessageReceived_def
      and_then_def subscription_up_def updateState_def updateError_def
      refreshHalrcompHeartbeat_def startHalrcmdHeartbeat_def Let_def)

text \<open>
  Claim C10, evaluated on the code. The example session is bound and subscribed and has
  received no FULL_UPDATE: it is Connecting, the subscription sub-state is Trying and no
  handle is assigned. An INCREMENTAL_UPDATE that carries a value for handle 10 arrives.
  The lookup in the empty handle index returns the null pointer and \<open>pinUpdate\<close>
  dereferences it in the loop over the pin sub-messages, before the handler reaches
  the block that clears the error and enters Connected: the handler faults and
  Connected is not entered.
\<close>

theorem incremental_update_before_full_update_faults:
  "run example_conversions example_binding example_component \<noteq> None
   \<and> m_connectionState example_bound = Connecting
   \<and> m_sState example_bound = Trying
   \<and> m_pinsByHandle example_bound 10 = None
   \<and> isl (halrcompMessageReceived example_bound ''comp''
          (incremental_update_message [new_Pin\<lparr>pb_handle := Some 10, pb_halbit := Some True\<rparr>]))
   \<and> projl (halrcompMessageReceived example_bound ''comp''
          (incremental_update_message [new_Pin\<lparr>pb_handle := Some 10, pb_halbit := Some True\<rparr>]))
       = NullPointerDereference"
  by code_simp

subsection \<open>Synchronisation flags outside Connected\<close>

lemma unsync_fold:
  "pin_synced (fold (\<lambda>(n, r) h. setSynced r False h) kvs h r')
     = (pin_synced (h r') \<and> r' \<notin> snd ` set kvs)"
  by (induction kvs arbitrary: h) (auto simp: setSynced_def split: if_splits)

text \<open>
  Every call of \<open>updateState\<close> that takes the controller out of Connected leaves every
  pin registered in the name index at that moment with \<open>synced\<close> false, and leaves the
  name index as it is.
\<close>

lemma updateState_leaving_Connected_unsyncs:
  assumes "m_connectionState c = Connected" and "state \<noteq> Connected"
  shows "m_connectionState (updateState c state) = state
       \<and> m_pinsByName (updateState c state) = m_pinsByName c
       \<and> (\<forall>(n, r) \<in> set (m_pinsByName c). \<not> pin_synced (heap (updateState c state) r))"
  using assms
  by (force simp: updateState_def unsyncPins_def stopHalrcmdHeartbeat_def
        stopHalrcompHeartbeat_def unsync_fold Let_def)

text \<open>
  \<open>stop\<close> calls \<open>removePins\<close> before \<open>updateState\<close>: when \<open>updateState\<close> leaves
  Connected, \<open>unsyncPins\<close> runs over a name index that is already empty. So \<open>stop\<close>
  changes no pin.
\<close>

lemma stop_keeps_heap: "heap (stop c) = heap c"
  by (simp add: stop_def updateError_def updateState_def unsyncPins_def removePins_def
      disconnectSockets_def stopHalrcmdHeartbeat_def stopHalrcompHeartbeat_def
      startHalrcmdHeartbeat_def Let_def)

text \<open>
  Claim C1, evaluated on the code. The connected example session, in which both pins
  are synced, goes through a ready cycle: ready is lowered and raised again. After
  \<open>stop\<close> the controller is Disconnected and pin \<open>x\<close> is still synced; the new
  session registers the pin again, and while it is Connecting, before any full update,
  the registered pin \<open>x\<close> has \<open>synced\<close> true.
\<close>

theorem ready_cycle_keeps_synced:
  "m_connectionState example_connected = Connected
   \<and> pin_synced (heap example_connected 1)
   \<and> m_connectionState (stop example_connected) = Disconnected
   \<and> pin_synced (heap (stop example_connected) 1)
   \<and> run example_conversions example_restart example_component \<noteq> None
   \<and> m_connectionState example_restarted = Connecting
   \<and> (''x'', 1) \<in> set (m_pinsByName example_restarted)
   \<and> pin_synced (heap example_restarted 1)"
  by code_simp

text \<open>
  The update handlers apply values whatever the connection state is. After a rejected
  SET the controller is in Error with error PinChange, its pins unsynced and the
  subscription still up; the next INCREMENTAL_UPDATE for handle 10 sets \<open>synced\<close> on
  pin \<open>x\<close> again, and the controller stays in Error.
\<close>

lemma update_in_Error_sets_synced:
  "run example_conversions example_rejected example_component \<noteq> None
   \<and> m_connectionState example_after_reject = Error
   \<and> m_error example_after_reject = PinChangeError
   \<and> (''x'', 1) \<in> set (m_pinsByName example_after_reject)
   \<and> pin_synced (heap example_after_reject 1)"
  by code_simp

subsection \<open>Full updates\<close>

lemma full_update_heap_append:
  "full_update_heap names (ps @ qs) h = full_update_heap names qs (full_update_heap names ps h)"
  by (induction ps arbitrary: h) simp_all

lemma full_update_handles_append:
  "full_update_handles names (ps @ qs) b
     = full_update_handles names qs (full_update_handles names ps b)"
  by (induction ps arbitrary: b) simp_all

lemma fullUpdate_pin_resolved:
  "full_update_target (m_pinsByName c) p = Some r \<Longrightarrow>
   fullUpdate_pin c p
     = Inr (c\<lparr>heap := apply_value p r (setHandle r (handle_of p) (heap c)),
             m_pinsByHandle := (m_pinsByHandle c)(handle_of p \<mapsto> r)\<rparr>)"
  by (simp add: fullUpdate_pin_def full_update_target_def pinUpdate_Some Let_def)

lemma fullUpdate_pin_unresolved:
  "full_update_target (m_pinsByName c) p = None \<Longrightarrow> fullUpdate_pin c p = Inl NullPointerDereference"
  by (simp add: fullUpdate_pin_def full_update_target_def Let_def)

lemma fullUpdate_pins_resolved:
  "\<forall>p\<in>set ps. full_update_target (m_pinsByName c) p \<noteq> None \<Longrightarrow>
   fullUpdate_pins c ps
     = Inr (c\<lparr>heap := full_update_heap (m_pinsByName c) ps (heap c),
             m_pinsByHandle := full_update_handles (m_pinsByName c) ps (m_pinsByHandle c)\<rparr>)"
proof (induction ps arbitrary: c)
  case Nil
  show ?case by simp
next
  case (Cons p ps)
  from Cons.prems obtain r where r: "full_update_target (m_pinsByName c) p = Some r"
    by auto
  let ?c1 = "c\<lparr>heap := apply_value p r (setHandle r (handle_of p) (heap c)),
               m_pinsByHandle := (m_pinsByHandle c)(handle_of p \<mapsto> r)\<rparr>"
  have "\<forall>q\<in>set ps. full_update_target (m_pinsByName ?c1) q \<noteq> None"
    using Cons.prems by simp
  note ih = Cons.IH [OF this]
  have "fullUpdate_pins c (p # ps) = fullUpdate_pins ?c1 ps"
    by (simp add: fullUpdate_pin_resolved [OF r] and_then_def)
  also note ih
  also have "Inr (?c1\<lparr>heap := full_update_heap (m_pinsByName ?c1) ps (heap ?c1),
                     m_pinsByHandle :=
                       full_update_handles (m_pinsByName ?c1) ps (m_pinsByHandle ?c1)\<rparr>)
             = (Inr (c\<lparr>heap := full_update_heap (m_pinsByName c) (p # ps) (heap c),
                       m_pinsByHandle :=
                         full_update_handles (m_pinsByName c) (p # ps) (m_pinsByHandle c)\<rparr>)
                :: fault + QHalRemoteComponent)"
    by (simp add: r)
  finally show ?case .
qed

lemma subscription_up_frame:
  "subscription_up (c\<lparr>heap := h, m_pinsByHandle := b\<rparr>)
     = (subscription_up c)\<lparr>heap := h, m_pinsByHandle := b\<rparr>"
  "m_pinsByName (subscription_up c) = m_pinsByName c"
  "heap (subscription_up c) = heap c"
  "m_pinsByHandle (subscription_up c) = m_pinsByHandle c"
  "subscription_up (subscription_up c) = subscription_up c"
  by (simp_all add: subscription_up_def updateState_def updateError_def
        startHalrcmdHeartbeat_def Let_def)

lemma fullUpdate_comps_resolved:
  "\<forall>p\<in>set (concat (map comp_pin comps)). full_update_target (m_pinsByName c) p \<noteq> None \<Longrightarrow>
   fullUpdate_comps c comps
     = Inr ((if comps = [] then c else subscription_up c)
             \<lparr>heap := full_update_heap (m_pinsByName c) (concat (map comp_pin comps)) (heap c),
              m_pinsByHandle :=
                full_update_handles (m_pinsByName c) (concat (map comp_pin comps))
                  (m_pinsByHandle c)\<rparr>)"
proof (induction comps arbitrary: c)
  case Nil
  show ?case by simp
next
  case (Cons k ks)
  let ?n = "m_pinsByName c"
  let ?h1 = "full_update_heap ?n (comp_pin k) (heap c)"
  let ?b1 = "full_update_handles ?n (comp_pin k) (m_pinsByHandle c)"
  let ?c1 = "(subscription_up c)\<lparr>heap := ?h1, m_pinsByHandle := ?b1\<rparr>"
  have a: "\<forall>p\<in>set (comp_pin k). full_update_target ?n p \<noteq> None"
    using Cons.prems by simp
  have b: "\<forall>p\<in>set (concat (map comp_pin ks)). full_update_target (m_pinsByName ?c1) p \<noteq> None"
    using Cons.prems by (simp add: subscription_up_frame)
  have "fullUpdate_comps c (k # ks) = fullUpdate_comps ?c1 ks"
    by (simp add: fullUpdate_pins_resolved [OF a] and_then_def subscription_up_frame)
  also have "\<dots> = Inr ((if ks = [] then ?c1 else subscription_up ?c1)
             \<lparr>heap := full_update_heap ?n (concat (map comp_pin ks)) ?h1,
              m_pinsByHandle := full_update_handles ?n (concat (map comp_pin ks)) ?b1\<rparr>)"
    using Cons.IH [OF b] by (simp add: subscription_up_frame)
  finally show ?case
    by (simp add: subscription_up_frame full_update_heap_append full_update_handles_append)
qed

lemma map_add_upd_rev:
  "b(k \<mapsto> r) ++ map_of (rev xs) = b ++ map_of (rev ((k, r) # xs))"
  by (simp add: fun_eq_iff map_add_def split: option.splits)

lemma full_update_handles_map:
  "full_update_handles names ps b = b ++ map_of (rev (carried_handles names ps))"
proof (induction ps arbitrary: b)
  case Nil
  show ?case by (simp add: carried_handles_def)
next
  case (Cons p ps)
  show ?case
  proof (cases "full_update_target names p")
    case None
    then have "carried_handles names (p # ps) = carried_handles names ps"
      by (simp add: carried_handles_def)
    with None Cons show ?thesis by simp
  next
    case (Some r)
    then have e: "carried_handles names (p # ps) = (handle_of p, r) # carried_handles names ps"
      by (simp add: carried_handles_def)
    have "full_update_handles names (p # ps) b
            = full_update_handles names ps (b(handle_of p \<mapsto> r))"
      using Some by simp
    also have "\<dots> = b(handle_of p \<mapsto> r) ++ map_of (rev (carried_handles names ps))"
      by (rule Cons.IH)
    also have "\<dots> = b ++ map_of (rev (carried_handles names (p # ps)))"
      unfolding e by (rule map_add_upd_rev)
    finally show ?thesis .
  qed
qed

text \<open>
  Claim C7, as stated, fails. The connected example session (handles 10 and 11) receives
  a second FULL_UPDATE that numbers the pins 20 and 21. The handler inserts the new
  entries into the handle index and removes none: the entries for 10 and 11, which the
  envelope does not carry, are still there.
\<close>

theorem full_update_keeps_stale_handles_counterexample:
  "run example_conversions example_renumbering example_component \<noteq> None
   \<and> handle_of ` set (envelope_pins example_renumbering_update) = {20, 21}
   \<and> m_pinsByHandle example_renumbered 20 = Some 1
   \<and> m_pinsByHandle example_renumbered 21 = Some 2
   \<and> m_pinsByHandle example_renumbered 10 = Some 1
   \<and> m_pinsByHandle example_renumbered 11 = Some 2"
  by code_simp

text \<open>
  Claim C7, amended. On every FULL_UPDATE whose pin sub-messages all name registered
  pins, the handle index is merged, not replaced: afterwards it is the index from
  before, overridden by the entries that the envelope carries (the last sub-message
  wins for a handle carried twice). Every earlier entry whose handle the envelope does
  not carry survives.
\<close>

theorem full_update_merges_handle_index:
  assumes "msg_type m = MT_HALRCOMP_FULL_UPDATE"
    and "\<forall>p\<in>set (envelope_pins m).
           QMap_value (m_pinsByName c) (strip_comp_prefix (name_of p)) \<noteq> None"
  shows "\<exists>c'. halrcompMessageReceived c topic m = Inr c'
           \<and> m_pinsByHandle c'
               = m_pinsByHandle c
                 ++ map_of (rev (carried_handles (m_pinsByName c) (envelope_pins m)))"
proof -
  from assms(2) have "\<forall>p\<in>set (concat (map comp_pin (msg_comp m))).
      full_update_target (m_pinsByName c) p \<noteq> None"
    by (simp add: envelope_pins_def full_update_target_def)
  note s = fullUpdate_comps_resolved [OF this]
  show ?thesis using assms(1)
    by (simp add: halrcompMessageReceived_def s and_then_def startHalrcompHeartbeat_def
        full_update_handles_map envelope_pins_def subscription_up_frame Let_def
        split: option.splits)
qed

lemma example_renumbering_facts:
  "msg_type example_renumbering_update = MT_HALRCOMP_FULL_UPDATE"
  "\<forall>p\<in>set (envelope_pins example_renumbering_update).
     QMap_value (m_pinsByName example_connected) (strip_comp_prefix (name_of p)) \<noteq> None"
  "carried_handles (m_pinsByName example_connected) (envelope_pins example_renumbering_update)
     = [(20, 1), (21, 2)]"
  "m_pinsByHandle example_connected 10 = Some 1"
  "map (\<lambda>p. QMap_value (m_pinsByName example_connected) (strip_comp_prefix (name_of p)))
     (envelope_pins example_renumbering_update) = [Some 1, Some 2]"
  by (code_simp, code_simp, code_simp, code_simp, code_simp)

theorem full_update_merges_handle_index_witness:
  "msg_type example_renumbering_update = MT_HALRCOMP_FULL_UPDATE
   \<and> map (\<lambda>p. QMap_value (m_pinsByName example_connected) (strip_comp_prefix (name_of p)))
         (envelope_pins example_renumbering_update) = [Some 1, Some 2]
   \<and> (\<exists>c'. halrcompMessageReceived example_connected ''comp'' example_renumbering_update
            = Inr c'
          \<and> m_pinsByHandle c' 20 = Some 1 \<and> m_pinsByHandle c' 10 = Some 1)"
  using full_update_merges_handle_index [OF example_renumbering_facts(1,2), of "''comp''"]
    example_renumbering_facts
  by (auto simp: map_add_def)

lemma indexOf_append:
  "ch \<notin> set xs \<Longrightarrow> indexOf (xs @ ch # ys) ch = int (length xs)"
  by (induction xs) (auto simp: Let_def)

lemma strip_comp_prefix_qualified:
  "CHR ''.'' \<notin> set cname \<Longrightarrow> strip_comp_prefix (cname @ CHR ''.'' # p) = p"
  by (simp add: strip_comp_prefix_def indexOf_append mid_def Let_def nat_add_distrib)

lemma full_update_heap_other:
  "\<forall>q\<in>set ps. full_update_target names q \<noteq> Some r \<Longrightarrow> full_update_heap names ps h r = h r"
  by (induction ps arbitrary: h)
     (auto simp: apply_value_def setValue_def setHandle_def split: option.splits)

lemma full_update_handles_other:
  "\<forall>q\<in>set ps. handle_of q \<noteq> k \<Longrightarrow> full_update_handles names ps b k = b k"
  by (induction ps arbitrary: b) (auto split: option.splits)


text \<open>
  What a FULL_UPDATE does for a pin when nothing goes wrong. Take an envelope all of
  whose pin sub-messages name registered pins (after the prefix up to the first dot is
  stripped), and in it a pin sub-message named \<open>cname.p\<close>, where \<open>cname\<close> holds no dot
  and \<open>p\<close> is the name of a registered pin, that carries the value \<open>v\<close>; let no later
  pin sub-message of the envelope address the same pin or carry the same handle. After
  processing, the local pin \<open>p\<close> has the value \<open>v\<close>, \<open>synced\<close> set and the handle of
  the sub-message, and the handle index maps that handle to the pin.
\<close>

lemma full_update_seeds_pin:
  assumes "msg_type m = MT_HALRCOMP_FULL_UPDATE"
    and "\<forall>q\<in>set (envelope_pins m).
           QMap_value (m_pinsByName c) (strip_comp_prefix (name_of q)) \<noteq> None"
    and "envelope_pins m = before @ rp # after"
    and "name_of rp = cname @ ''.'' @ p" and "CHR ''.'' \<notin> set cname"
    and "QMap_value (m_pinsByName c) p = Some r"
    and "typed_value rp = Some v"
    and "\<forall>q\<in>set after.
           QMap_value (m_pinsByName c) (strip_comp_prefix (name_of q)) \<noteq> Some r
           \<and> handle_of q \<noteq> handle_of rp"
  shows "\<exists>c'. halrcompMessageReceived c topic m = Inr c'
           \<and> QMap_value (m_pinsByName c') p = Some r
           \<and> pin_value (heap c' r) = v \<and> pin_synced (heap c' r)
           \<and> pin_handle (heap c' r) = handle_of rp
           \<and> m_pinsByHandle c' (handle_of rp) = Some r"
proof -
  let ?n = "m_pinsByName c"
  from assms(2) have "\<forall>q\<in>set (concat (map comp_pin (msg_comp m))).
      full_update_target ?n q \<noteq> None"
    by (simp add: envelope_pins_def full_update_target_def)
  note s = fullUpdate_comps_resolved [OF this]
  have t: "full_update_target ?n rp = Some r"
    using assms(4,5,6) by (simp add: full_update_target_def strip_comp_prefix_qualified)
  have a: "\<forall>q\<in>set after. full_update_target ?n q \<noteq> Some r"
    and b: "\<forall>q\<in>set after. handle_of q \<noteq> handle_of rp"
    using assms(8) by (simp_all add: full_update_target_def)
  let ?h0 = "full_update_heap ?n before (heap c)"
  let ?b0 = "full_update_handles ?n before (m_pinsByHandle c)"
  have h: "full_update_heap ?n (envelope_pins m) (heap c) r
             = apply_value rp r (setHandle r (handle_of rp) ?h0) r"
    by (simp add: assms(3) full_update_heap_append t full_update_heap_other [OF a])
  have k: "full_update_handles ?n (envelope_pins m) (m_pinsByHandle c) (handle_of rp) = Some r"
    by (simp add: assms(3) full_update_handles_append t full_update_handles_other [OF b])
  have v: "pin_value (apply_value rp r (setHandle r (handle_of rp) ?h0) r) = v"
    "pin_synced (apply_value rp r (setHandle r (handle_of rp) ?h0) r)"
    "pin_handle (apply_value rp r (setHandle r (handle_of rp) ?h0) r) = handle_of rp"
    using assms(7) by (simp_all add: apply_value_def setValue_def setHandle_def)
  have ne: "msg_comp m \<noteq> []"
    using assms(3) by (auto simp: envelope_pins_def)
  show ?thesis using assms(1,6) h k v ne
    by (simp add: halrcompMessageReceived_def s and_then_def startHalrcompHeartbeat_def
        envelope_pins_def subscription_up_frame Let_def split: option.splits)
qed

text \<open>
  The sub-messages of an envelope are applied in order: of two sub-messages for pin
  \<open>x\<close>, the second decides the value and the handle of the pin.
\<close>

lemma full_update_last_sub_message_wins:
  "run example_conversions (example_binding @ [HalrcompMessage ''comp'' example_duplicate_update])
       example_component \<noteq> None
   \<and> QMap_value (m_pinsByName example_duplicated) ''x'' = Some 1
   \<and> pin_value (heap example_duplicated 1) = QVariant_bool False
   \<and> pin_handle (heap example_duplicated 1) = 12"
  by code_simp

text \<open>
  Claim C3, evaluated on the code. (1) The component is named \<open>my.comp\<close> and has the
  registered pin \<open>x\<close>, which the controller itself binds under the name \<open>my.comp.x\<close>.
  The FULL_UPDATE carries the pin sub-message named \<open>my.comp.x\<close> with the value true.
  The handler strips the name at its first dot, looks up \<open>comp.x\<close>, gets the null
  pointer and calls \<open>setHandle\<close> on it: the handler faults and pin \<open>x\<close> receives
  neither value nor handle. (2) The component is named \<open>comp\<close>; the FULL_UPDATE carries
  the pin sub-message named \<open>comp.x\<close> and one for a pin \<open>z\<close> that is not registered.
  The lookup of \<open>z\<close> returns the null pointer and the handler faults.
\<close>

theorem full_update_null_dereference:
  "QMap_value (m_pinsByName example_dotted_bound) ''x'' = Some 1
   \<and> m_name example_dotted_bound = ''my.comp''
   \<and> pb_name (hd (comp_pin (hd (msg_comp (last (halrcmd_sent example_dotted_bound))))))
       = Some ''my.comp.x''
   \<and> map name_of (envelope_pins example_dotted_update) = [''my.comp'' @ ''.'' @ ''x'']
   \<and> map typed_value (envelope_pins example_dotted_update) = [Some (QVariant_bool True)]
   \<and> strip_comp_prefix ''my.comp.x'' = ''comp.x''
   \<and> QMap_value (m_pinsByName example_dotted_bound) ''comp.x'' = None
   \<and> isl (halrcompMessageReceived example_dotted_bound ''my.comp'' example_dotted_update)
   \<and> projl (halrcompMessageReceived example_dotted_bound ''my.comp'' example_dotted_update)
       = NullPointerDereference
   \<and> QMap_value (m_pinsByName example_bound) ''x'' = Some 1
   \<and> map name_of (envelope_pins example_unknown_pin_update) = [''comp.x'', ''comp.z'']
   \<and> QMap_value (m_pinsByName example_bound) ''z'' = None
   \<and> isl (halrcompMessageReceived example_bound ''comp'' example_unknown_pin_update)
   \<and> projl (halrcompMessageReceived example_bound ''comp'' example_unknown_pin_update)
       = NullPointerDereference"
  by code_simp

subsection \<open>A command heartbeat period of zero\<close>

lemma off_updateState: "command_heartbeat_off c \<Longrightarrow> command_heartbeat_off (updateState c s)"
  by (simp add: command_heartbeat_off_def updateState_def unsyncPins_def
      startHalrcmdHeartbeat_def stopHalrcmdHeartbeat_def stopHalrcompHeartbeat_def Let_def)

lemma off_updateError: "command_heartbeat_off (updateError c e s) = command_heartbeat_off c"
  by (simp add: command_heartbeat_off_def updateError_def)

lemma off_fields:
  "command_heartbeat_off (c\<lparr>heap := h\<rparr>) = command_heartbeat_off c"
  "command_heartbeat_off (c\<lparr>m_pinsByHandle := b\<rparr>) = command_heartbeat_off c"
  "command_heartbeat_off (c\<lparr>m_pinsByName := n\<rparr>) = command_heartbeat_off c"
  "command_heartbeat_off (c\<lparr>connections := k\<rparr>) = command_heartbeat_off c"
  "command_heartbeat_off (c\<lparr>m_sState := s\<rparr>) = command_heartbeat_off c"
  "command_heartbeat_off (c\<lparr>m_cState := s\<rparr>) = command_heartbeat_off c"
  "command_heartbeat_off (c\<lparr>m_ready := a\<rparr>) = command_heartbeat_off c"
  "command_heartbeat_off (c\<lparr>m_componentCompleted := a\<rparr>) = command_heartbeat_off c"
  "command_heartbeat_off (c\<lparr>m_halrcmdPingOutstanding := a\<rparr>) = command_heartbeat_off c"
  "command_heartbeat_off (c\<lparr>m_halrcompPingOutstanding := a\<rparr>) = command_heartbeat_off c"
  "command_heartbeat_off (c\<lparr>halrcmd_sent := ms\<rparr>) = command_heartbeat_off c"
  "command_heartbeat_off (c\<lparr>halrcomp_topics := ts\<rparr>) = command_heartbeat_off c"
  "command_heartbeat_off (c\<lparr>m_halrcompHeartbeatTimer := t\<rparr>) = command_heartbeat_off c"
  "command_heartbeat_off (c\<lparr>m_context := x\<rparr>) = command_heartbeat_off c"
  "command_heartbeat_off (c\<lparr>m_halrcmdSocket := x\<rparr>) = command_heartbeat_off c"
  "command_heartbeat_off (c\<lparr>m_halrcompSocket := x\<rparr>) = command_heartbeat_off c"
  by (simp_all add: command_heartbeat_off_def)

lemma off_send:
  "command_heartbeat_off c \<Longrightarrow> sendHalrcmdMessage c d t = Inr c' \<Longrightarrow> command_heartbeat_off c'"
  by (auto simp: sendHalrcmdMessage_def off_fields off_updateState off_updateError
      split: option.splits)

lemma off_subscribe:
  "command_heartbeat_off c \<Longrightarrow> subscribe c = Inr c' \<Longrightarrow> command_heartbeat_off c'"
  "command_heartbeat_off c \<Longrightarrow> unsubscribe c = Inr c' \<Longrightarrow> command_heartbeat_off c'"
  by (auto simp: subscribe_def unsubscribe_def off_fields Let_def split: option.splits)

lemma off_pinUpdate:
  "command_heartbeat_off c \<Longrightarrow> pinUpdate c p lp = Inr c' \<Longrightarrow> command_heartbeat_off c'"
  by (auto simp: pinUpdate_def off_fields split: option.splits)

lemma off_incrementalUpdate_pins:
  "command_heartbeat_off c \<Longrightarrow> incrementalUpdate_pins c ps = Inr c' \<Longrightarrow>
   command_heartbeat_off c'"
  by (induction ps arbitrary: c)
     (auto simp: and_then_def split: sum.splits dest: off_pinUpdate)

lemma off_fullUpdate_pin:
  "command_heartbeat_off c \<Longrightarrow> fullUpdate_pin c p = Inr c' \<Longrightarrow> command_heartbeat_off c'"
  by (auto simp: fullUpdate_pin_def Let_def off_fields split: option.splits
      dest!: off_pinUpdate [rotated])

lemma off_fullUpdate_pins:
  "command_heartbeat_off c \<Longrightarrow> fullUpdate_pins c ps = Inr c' \<Longrightarrow> command_heartbeat_off c'"
  by (induction ps arbitrary: c)
     (auto simp: and_then_def split: sum.splits dest: off_fullUpdate_pin)

lemma off_subscription_up:
  "command_heartbeat_off c \<Longrightarrow> command_heartbeat_off (subscription_up c)"
  by (simp add: subscription_up_def off_updateState off_updateError off_fields)

lemma off_fullUpdate_comps:
  "command_heartbeat_off c \<Longrightarrow> fullUpdate_comps c ks = Inr c' \<Longrightarrow> command_heartbeat_off c'"
proof (induction ks arbitrary: c)
  case Nil
  then show ?case by simp
next
  case (Cons k ks)
  from Cons.prems(2) obtain c1 where
    a: "fullUpdate_pins c (comp_pin k) = Inr c1"
    and b: "fullUpdate_comps (subscription_up c1) ks = Inr c'"
    by (auto simp: and_then_def split: sum.splits)
  from off_fullUpdate_pins [OF Cons.prems(1) a] have "command_heartbeat_off (subscription_up c1)"
    by (rule off_subscription_up)
  from Cons.IH [OF this b] show ?case .
qed

lemma off_startHalrcompHeartbeat:
  "command_heartbeat_off (startHalrcompHeartbeat c i) = command_heartbeat_off c"
  "command_heartbeat_off (refreshHalrcompHeartbeat c) = command_heartbeat_off c"
  by (simp_all add: command_heartbeat_off_def startHalrcompHeartbeat_def
      refreshHalrcompHeartbeat_def Let_def)

lemma off_halrcompMessageReceived:
  "command_heartbeat_off c \<Longrightarrow> halrcompMessageReceived c topic m = Inr c' \<Longrightarrow>
   command_heartbeat_off c'"
  by (auto simp: halrcompMessageReceived_def and_then_def off_startHalrcompHeartbeat
      off_updateState off_updateError off_fields off_subscription_up
      split: if_splits sum.splits option.splits
      dest: off_incrementalUpdate_pins off_fullUpdate_comps)

lemma off_halrcmdMessageReceived:
  "command_heartbeat_off c \<Longrightarrow> halrcmdMessageReceived c m = Inr c' \<Longrightarrow>
   command_heartbeat_off c'"
  by (auto simp: halrcmdMessageReceived_def Let_def off_updateState off_updateError off_fields
      split: if_splits
      dest!: off_subscribe(1) [rotated])

lemma off_ticks:
  "command_heartbeat_off c \<Longrightarrow> halrcmdHeartbeatTimerTick c t = Inr c' \<Longrightarrow>
   command_heartbeat_off c'"
  "command_heartbeat_off c \<Longrightarrow> halrcompHeartbeatTimerTick c t = Inr c' \<Longrightarrow>
   command_heartbeat_off c'"
  by (auto simp: halrcmdHeartbeatTimerTick_def halrcompHeartbeatTimerTick_def and_then_def
      off_fields off_updateState off_updateError
      split: if_splits sum.splits
      dest!: off_subscribe(2) [rotated] off_send [rotated])


lemma off_addPins_loop: "command_heartbeat_off (addPins_loop rs c) = command_heartbeat_off c"
  by (induction rs arbitrary: c) (simp_all add: Let_def off_fields)

lemma off_addPins: "command_heartbeat_off (addPins c) = command_heartbeat_off c"
  by (simp add: addPins_def off_addPins_loop split: option.splits)

lemma off_connectSockets:
  "command_heartbeat_off c \<Longrightarrow> command_heartbeat_off (fst (connectSockets c t))"
  by (auto simp: connectSockets_def Let_def off_fields off_updateState off_updateError
      split: option.splits)

lemma off_start:
  "command_heartbeat_off c \<Longrightarrow> start qt c ct st = Inr c' \<Longrightarrow> command_heartbeat_off c'"
proof -
  assume p: "command_heartbeat_off c" and s: "start qt c ct st = Inr c'"
  let ?c1 = "updateState (c\<lparr>m_cState := Trying\<rparr>) Connecting"
  have "command_heartbeat_off ?c1"
    using p by (simp add: off_updateState off_fields)
  then have q: "command_heartbeat_off (fst (connectSockets ?c1 ct))"
    by (rule off_connectSockets)
  show ?thesis
  proof (cases "snd (connectSockets ?c1 ct)")
    case True
    with s have "bind qt (addPins (fst (connectSockets ?c1 ct))) st = Inr c'"
      by (simp add: start_def Let_def split: prod.splits)
    with q show ?thesis
      by (auto simp: bind_def off_addPins dest!: off_send [rotated])
  next
    case False
    with s have "c' = fst (connectSockets ?c1 ct)"
      by (simp add: start_def Let_def split: prod.splits)
    with q show ?thesis by simp
  qed
qed

lemma off_stop_parts:
  "command_heartbeat_off c \<Longrightarrow> command_heartbeat_off (stopHalrcmdHeartbeat c)"
  "command_heartbeat_off (stopHalrcompHeartbeat c) = command_heartbeat_off c"
  "command_heartbeat_off (disconnectSockets c) = command_heartbeat_off c"
  "command_heartbeat_off (removePins c) = command_heartbeat_off c"
  by (simp_all add: command_heartbeat_off_def stopHalrcmdHeartbeat_def
      stopHalrcompHeartbeat_def disconnectSockets_def removePins_def Let_def)

lemma off_stop: "command_heartbeat_off c \<Longrightarrow> command_heartbeat_off (stop c)"
  by (simp add: stop_def Let_def off_updateError off_updateState off_stop_parts)

lemma off_setReady:
  "command_heartbeat_off c \<Longrightarrow> setReady qt c a ct st = Inr c' \<Longrightarrow> command_heartbeat_off c'"
  by (auto simp: setReady_def Let_def off_fields off_stop split: if_splits
      dest!: off_start [rotated])

lemma off_componentComplete:
  "command_heartbeat_off c \<Longrightarrow> componentComplete qt c ct st = Inr c' \<Longrightarrow>
   command_heartbeat_off c'"
  by (auto simp: componentComplete_def Let_def off_fields split: if_splits
      dest!: off_start [rotated])

lemma off_pinChange:
  "command_heartbeat_off c \<Longrightarrow> pinChange qt c r t = Inr c' \<Longrightarrow> command_heartbeat_off c'"
  by (auto simp: pinChange_def split: if_splits dest!: off_send [rotated])

lemma off_emit_valueChanged:
  "command_heartbeat_off c \<Longrightarrow> emit_valueChanged qt slots r t c = Inr c' \<Longrightarrow>
   command_heartbeat_off c'"
proof (induction slots arbitrary: c)
  case Nil
  then show ?case by simp
next
  case (Cons x slots)
  show ?case
  proof (cases "x = r")
    case True
    with Cons.prems(2) obtain c1 where
      a: "pinChange qt c r t = Inr c1" and b: "emit_valueChanged qt slots r t c1 = Inr c'"
      by (auto simp: and_then_def split: sum.splits)
    from Cons.IH [OF off_pinChange [OF Cons.prems(1) a] b] show ?thesis .
  next
    case False
    with Cons show ?thesis by simp
  qed
qed

lemma off_pinWrite:
  "command_heartbeat_off c \<Longrightarrow> pinWrite qt c r v t = Inr c' \<Longrightarrow> command_heartbeat_off c'"
  by (auto simp: pinWrite_def off_fields dest!: off_emit_valueChanged [rotated])

lemma off_dispatch:
  "command_heartbeat_off c \<Longrightarrow> dispatch qt e c = Inr c' \<Longrightarrow> command_heartbeat_off c'"
  by (cases e)
     (auto simp: pollError_def off_updateState off_updateError
       dest: off_setReady off_componentComplete off_halrcmdMessageReceived
         off_halrcompMessageReceived off_ticks off_pinWrite)

lemma off_run:
  "command_heartbeat_off c \<Longrightarrow> run qt es c = Some c' \<Longrightarrow>
   command_heartbeat_off c' \<and> (\<forall>t. HalrcmdHeartbeatTimeout t \<notin> set es)"
proof (induction es arbitrary: c)
  case Nil
  then show ?case by simp
next
  case (Cons e es)
  from Cons.prems(2) obtain c1 where
    en: "enabled c e" and d: "dispatch qt e c = Inr c1" and r: "run qt es c1 = Some c'"
    by (auto split: if_splits sum.splits)
  from en Cons.prems(1) have "\<forall>t. e \<noteq> HalrcmdHeartbeatTimeout t"
    by (auto simp: command_heartbeat_off_def)
  with Cons.IH [OF off_dispatch [OF Cons.prems(1) d] r] show ?case by auto
qed

lemma halrcompHeartbeatTimerTick_pings:
  "m_halrcompSocket c \<noteq> None \<Longrightarrow> m_halrcmdSocket c \<noteq> None \<Longrightarrow>
   \<exists>c'. halrcompHeartbeatTimerTick c None = Inr c'
      \<and> halrcmd_sent c' = halrcmd_sent c @ [new_Container MT_PING]
      \<and> m_heartbeatPeriod c' = m_heartbeatPeriod c"
  by (auto simp: halrcompHeartbeatTimerTick_def and_then_def unsubscribe_def updateState_def
      updateError_def sendHalrcmdMessage_def unsyncPins_def stopHalrcmdHeartbeat_def
      stopHalrcompHeartbeat_def startHalrcmdHeartbeat_def Let_def split: option.splits)

text \<open>
  Claim C9. Let the heartbeat period be configured as 0 and the command heartbeat timer
  not be running (as after construction). Then in every state that any sequence of
  events reaches, the command heartbeat timer is not running, and no command heartbeat
  tick occurs in the sequence: the command heartbeat never emits a PING. Nevertheless,
  in every such state whose sockets exist, a timeout of the subscription heartbeat
  sends a PING on the command socket, with the period still 0.
\<close>

theorem heartbeat_period_zero_disables_command_heartbeat:
  assumes "m_heartbeatPeriod c = 0" and "\<not> isActive (m_halrcmdHeartbeatTimer c)"
  shows "\<forall>es c'. run qt es c = Some c' \<longrightarrow>
           \<not> isActive (m_halrcmdHeartbeatTimer c')
           \<and> (\<forall>t. HalrcmdHeartbeatTimeout t \<notin> set es)
           \<and> (m_halrcompSocket c' \<noteq> None \<and> m_halrcmdSocket c' \<noteq> None \<longrightarrow>
                (\<exists>c2. halrcompHeartbeatTimerTick c' None = Inr c2
                   \<and> halrcmd_sent c2 = halrcmd_sent c' @ [new_Container MT_PING]
                   \<and> m_heartbeatPeriod c2 = 0))"
proof (intro allI impI)
  fix es c'
  assume r: "run qt es c = Some c'"
  from assms have "command_heartbeat_off c"
    by (simp add: command_heartbeat_off_def)
  from off_run [OF this r] have
    o: "command_heartbeat_off c'" and n: "\<forall>t. HalrcmdHeartbeatTimeout t \<notin> set es"
    by simp_all
  from o have z: "m_heartbeatPeriod c' = 0" and i: "\<not> isActive (m_halrcmdHeartbeatTimer c')"
    by (simp_all add: command_heartbeat_off_def)
  from halrcompHeartbeatTimerTick_pings [of c'] z
  have "m_halrcompSocket c' \<noteq> None \<and> m_halrcmdSocket c' \<noteq> None \<longrightarrow>
          (\<exists>c2. halrcompHeartbeatTimerTick c' None = Inr c2
             \<and> halrcmd_sent c2 = halrcmd_sent c' @ [new_Container MT_PING]
             \<and> m_heartbeatPeriod c2 = 0)"
    by auto
  with i n show "\<not> isActive (m_halrcmdHeartbeatTimer c')
           \<and> (\<forall>t. HalrcmdHeartbeatTimeout t \<notin> set es)
           \<and> (m_halrcompSocket c' \<noteq> None \<and> m_halrcmdSocket c' \<noteq> None \<longrightarrow>
                (\<exists>c2. halrcompHeartbeatTimerTick c' None = Inr c2
                   \<and> halrcmd_sent c2 = halrcmd_sent c' @ [new_Container MT_PING]
                   \<and> m_heartbeatPeriod c2 = 0))"
    by blast
qed

lemma example_unpaced_facts:
  "m_heartbeatPeriod example_unpaced = 0"
  "\<not> isActive (m_halrcmdHeartbeatTimer example_unpaced)"
  "run example_conversions example_keepalive_session example_unpaced \<noteq> None"
  "m_connectionState example_unpaced_connected = Connected"
  "enabled example_unpaced_connected (HalrcompHeartbeatTimeout None)"
  "m_halrcompSocket example_unpaced_connected \<noteq> None"
  "m_halrcmdSocket example_unpaced_connected \<noteq> None"
  by (code_simp, code_simp, code_simp, code_simp, code_simp, code_simp, code_simp)

theorem heartbeat_period_zero_witness:
  "m_heartbeatPeriod example_unpaced = 0
   \<and> \<not> isActive (m_halrcmdHeartbeatTimer example_unpaced)
   \<and> run example_conversions example_keepalive_session example_unpaced
       = Some example_unpaced_connected
   \<and> m_connectionState example_unpaced_connected = Connected
   \<and> \<not> isActive (m_halrcmdHeartbeatTimer example_unpaced_connected)
   \<and> enabled example_unpaced_connected (HalrcompHeartbeatTimeout None)
   \<and> (\<exists>c2. halrcompHeartbeatTimerTick example_unpaced_connected None = Inr c2
          \<and> halrcmd_sent c2
              = halrcmd_sent example_unpaced_connected @ [new_Container MT_PING])"
proof -
  have r: "run example_conversions example_keepalive_session example_unpaced
             = Some example_unpaced_connected"
    using example_unpaced_facts(3) by (auto simp: example_unpaced_connected_def)
  from heartbeat_period_zero_disables_command_heartbeat
         [OF example_unpaced_facts(1,2), of example_conversions] r
  have "\<not> isActive (m_halrcmdHeartbeatTimer example_unpaced_connected)
        \<and> (m_halrcompSocket example_unpaced_connected \<noteq> None
             \<and> m_halrcmdSocket example_unpaced_connected \<noteq> None \<longrightarrow>
            (\<exists>c2. halrcompHeartbeatTimerTick example_unpaced_connected None = Inr c2
               \<and> halrcmd_sent c2
                   = halrcmd_sent example_unpaced_connected @ [new_Container MT_PING]
               \<and> m_heartbeatPeriod c2 = 0))"
    by blast
  with r example_unpaced_facts show ?thesis by blast
qed


subsection \<open>The bind message\<close>

lemma addPins_loop_frame:
  "addPins_loop rs c
     = c\<lparr>m_pinsByName := register (heap c) rs (m_pinsByName c),
         connections := connections c @ filter (registrable (heap c)) rs\<rparr>"
  by (induction rs arbitrary: c) (auto simp: Let_def registrable_def)

lemma QMap_insert_fresh:
  "k \<notin> fst ` set kvs \<Longrightarrow> set (QMap_insert k v kvs) = insert (k, v) (set kvs)"
  by (induction kvs) (auto split: if_splits)

lemma QMap_insert_distinct:
  "k \<notin> fst ` set kvs \<Longrightarrow> distinct (map fst kvs) \<Longrightarrow> distinct (map fst (QMap_insert k v kvs))"
  by (induction kvs) (force simp: QMap_insert_fresh split: if_splits)+

lemma register_fresh:
  "distinct (map fst names) \<Longrightarrow>
   distinct (map (\<lambda>r. pin_name (h r)) (filter (registrable h) rs)) \<Longrightarrow>
   fst ` set names \<inter> (\<lambda>r. pin_name (h r)) ` set (filter (registrable h) rs) = {} \<Longrightarrow>
   set (register h rs names)
     = set names \<union> (\<lambda>r. (pin_name (h r), r)) ` set (filter (registrable h) rs)
   \<and> distinct (map fst (register h rs names))"
proof (induction rs arbitrary: names)
  case Nil
  then show ?case by simp
next
  case (Cons r rs)
  show ?case
  proof (cases "registrable h r")
    case False
    with Cons show ?thesis by simp
  next
    case True
    let ?k = "pin_name (h r)"
    let ?n1 = "QMap_insert ?k r names"
    from True Cons.prems(3) have fresh: "?k \<notin> fst ` set names" by auto
    have s1: "set ?n1 = insert (?k, r) (set names)"
      by (rule QMap_insert_fresh [OF fresh])
    have d1: "distinct (map fst ?n1)"
      by (rule QMap_insert_distinct [OF fresh Cons.prems(1)])
    have d2: "distinct (map (\<lambda>r. pin_name (h r)) (filter (registrable h) rs))"
      using Cons.prems(2) True by simp
    have k2: "?k \<notin> (\<lambda>r. pin_name (h r)) ` set (filter (registrable h) rs)"
      using Cons.prems(2) True by auto
    have i1: "fst ` set ?n1 \<inter> (\<lambda>r. pin_name (h r)) ` set (filter (registrable h) rs) = {}"
      using Cons.prems(3) True k2 unfolding s1 by auto
    from Cons.IH [OF d1 d2 i1] True s1 show ?thesis by auto
  qed
qed

lemma register_refs:
  assumes "distinct (map (\<lambda>r. pin_name (h r)) (filter (registrable h) rs))"
  shows "set (map snd (register h rs [])) = {r \<in> set rs. registrable h r}"
    and "distinct (map snd (register h rs []))"
proof -
  from register_fresh [of "[]" h rs] assms have
    s: "set (register h rs []) = (\<lambda>r. (pin_name (h r), r)) ` set (filter (registrable h) rs)"
    and d: "distinct (map fst (register h rs []))"
    by simp_all
  from s show "set (map snd (register h rs [])) = {r \<in> set rs. registrable h r}"
    by (auto simp: image_image)
  from s have "\<forall>e\<in>set (register h rs []). fst e = pin_name (h (snd e))"
    by auto
  then have "map fst (register h rs []) = map (\<lambda>r. pin_name (h r)) (map snd (register h rs []))"
    by simp
  with d show "distinct (map snd (register h rs []))"
    by (metis distinct_map)
qed

lemma findArgEscapes_plain:
  "CHR ''%'' \<notin> set xs \<Longrightarrow> findArgEscapes (xs @ s) = findArgEscapes s"
  by (induction xs) auto

lemma replaceArgEscapes_plain:
  "CHR ''%'' \<notin> set xs \<Longrightarrow> replaceArgEscapes m a (xs @ s) = xs @ replaceArgEscapes m a s"
  by (induction xs) auto

lemma QString_arg_format: "QString_arg ''%1.%2'' a = a @ ''.%2''"
  by (simp add: QString_arg_def arg_escape_def digitValue_def)

lemma qualified_name_plain:
  "CHR ''%'' \<notin> set cname \<Longrightarrow> qualified_name cname pname = cname @ ''.'' @ pname"
  by (simp add: qualified_name_def QString_arg_format QString_arg_def findArgEscapes_plain
      replaceArgEscapes_plain arg_escape_def digitValue_def)

lemma bind_pin_fields:
  "bind_pin qt cname pin =
     \<lparr>pb_name = Some (qualified_name cname (pin_name pin)), pb_handle = None,
      pb_type = Some (pin_type pin), pb_dir = Some (pin_direction pin),
      pb_halfloat = (if pin_type pin = Float then Some (toDouble qt (pin_value pin)) else None),
      pb_halbit = (if pin_type pin = Bit then Some (toBool qt (pin_value pin)) else None),
      pb_hals32 = (if pin_type pin = S32 then Some (toInt qt (pin_value pin)) else None),
      pb_halu32 = (if pin_type pin = U32 then Some (toUInt qt (pin_value pin)) else None)\<rparr>"
  by (cases "pin_type pin")
     (simp_all add: bind_pin_def set_typed_value_def new_Pin_def)

lemma start_binds:
  assumes "m_pinsByName c = []" and "m_containerItem c = Some item"
  shows "start qt c None None
    = Inr ((updateState (c\<lparr>m_cState := Trying\<rparr>) Connecting)
        \<lparr>m_context := Some True, m_halrcmdSocket := Some True, m_halrcompSocket := Some True,
         halrcomp_topics := [],
         m_pinsByName := register (heap c) (recurseObjects (children item)) [],
         connections := connections c
            @ filter (registrable (heap c)) (recurseObjects (children item)),
         halrcmd_sent := halrcmd_sent c
            @ [\<lparr>msg_type = MT_HALRCOMP_BIND,
                msg_comp = [\<lparr>comp_name = Some (m_name c),
                   comp_pin = map (\<lambda>r. bind_pin qt (m_name c) (heap c r))
                     (map snd (register (heap c) (recurseObjects (children item)) []))\<rparr>],
                msg_pin = [], msg_note = [], msg_pparams = None\<rparr>]\<rparr>)"
proof -
  let ?c1 = "updateState (c\<lparr>m_cState := Trying\<rparr>) Connecting"
  have f: "heap ?c1 = heap c" "m_pinsByName ?c1 = []" "m_containerItem ?c1 = Some item"
    "m_name ?c1 = m_name c" "halrcmd_sent ?c1 = halrcmd_sent c" "connections ?c1 = connections c"
    using assms
    by (simp_all add: updateState_def unsyncPins_def stopHalrcmdHeartbeat_def
        stopHalrcompHeartbeat_def Let_def)
  show ?thesis
    by (simp add: start_def connectSockets_def addPins_def addPins_loop_frame f bind_def
        bind_message_def sendHalrcmdMessage_def new_Container_def Let_def comp_def
        case_prod_unfold)
qed


text \<open>
  The bind of a component whose name holds no \<open>%\<close>. A session starts with an empty name
  index, a container item, and distinct names among the enabled, named pins below the
  container item. When the sockets connect and the send succeeds, \<open>start\<close> emits
  exactly one envelope, of type BIND. It holds exactly one component sub-message with
  the component's name, and one pin sub-message for each registered pin; the registered
  pins are exactly the enabled pins with a non-empty name that the enumeration of the
  container item yields, each once. Each pin sub-message carries the name
  \<open>component.pin\<close>, the type tag, the direction tag and the value field of the pin's
  type, converted from the pin's current value, and no handle.
\<close>

lemma bind_enumerates_registered_pins:
  assumes "m_pinsByName c = []" and "m_containerItem c = Some item"
    and "CHR ''%'' \<notin> set (m_name c)"
    and "distinct (map (\<lambda>r. pin_name (heap c r))
           (filter (\<lambda>r. pin_name (heap c r) \<noteq> [] \<and> pin_enabled (heap c r))
              (recurseObjects (children item))))"
  shows "\<exists>c' rs. start qt c None None = Inr c'
     \<and> heap c' = heap c
     \<and> map snd (m_pinsByName c') = rs
     \<and> distinct rs
     \<and> set rs = {r \<in> set (recurseObjects (children item)).
                   pin_name (heap c r) \<noteq> [] \<and> pin_enabled (heap c r)}
     \<and> halrcmd_sent c' = halrcmd_sent c
         @ [\<lparr>msg_type = MT_HALRCOMP_BIND,
             msg_comp =
               [\<lparr>comp_name = Some (m_name c),
                 comp_pin =
                   map (\<lambda>r.
                     \<lparr>pb_name = Some (m_name c @ ''.'' @ pin_name (heap c r)),
                      pb_handle = None,
                      pb_type = Some (pin_type (heap c r)),
                      pb_dir = Some (pin_direction (heap c r)),
                      pb_halfloat = (if pin_type (heap c r) = Float
                                     then Some (toDouble qt (pin_value (heap c r))) else None),
                      pb_halbit = (if pin_type (heap c r) = Bit
                                   then Some (toBool qt (pin_value (heap c r))) else None),
                      pb_hals32 = (if pin_type (heap c r) = S32
                                   then Some (toInt qt (pin_value (heap c r))) else None),
                      pb_halu32 = (if pin_type (heap c r) = U32
                                   then Some (toUInt qt (pin_value (heap c r))) else None)\<rparr>)
                     rs\<rparr>],
             msg_pin = [], msg_note = [], msg_pparams = None\<rparr>]"
proof -
  let ?rs = "map snd (register (heap c) (recurseObjects (children item)) [])"
  have e: "registrable (heap c)
             = (\<lambda>r. pin_name (heap c r) \<noteq> [] \<and> pin_enabled (heap c r))"
    by (simp add: fun_eq_iff registrable_def)
  from assms(4) have
    d: "distinct (map (\<lambda>r. pin_name (heap c r))
          (filter (registrable (heap c)) (recurseObjects (children item))))"
    by (simp add: e)
  have s: "set ?rs = {r \<in> set (recurseObjects (children item)).
                       pin_name (heap c r) \<noteq> [] \<and> pin_enabled (heap c r)}"
    using register_refs(1) [OF d] by (simp add: registrable_def)
  have t: "distinct ?rs"
    by (rule register_refs(2) [OF d])
  have h: "heap (updateState (c\<lparr>m_cState := Trying\<rparr>) Connecting) = heap c"
    using assms(1)
    by (simp add: updateState_def unsyncPins_def stopHalrcmdHeartbeat_def
        stopHalrcompHeartbeat_def Let_def)
  show ?thesis
    unfolding start_binds [OF assms(1,2)] bind_pin_fields
      qualified_name_plain [OF assms(3)]
    using s t h by simp
qed

text \<open>
  Claim C4, evaluated on the code. The example component is named \<open>c%1\<close> and ready is
  raised. The controller registers the pins \<open>x\<close> and \<open>y\<close> and emits one BIND envelope.
  The first \<open>arg\<close> call puts the component name in place of \<open>%1\<close>; the second call
  finds the marker \<open>%1\<close> inside the component name, lower than \<open>%2\<close>, and puts the pin
  name there. The pin sub-messages carry the names \<open>cx.%2\<close> and \<open>cy.%2\<close>, not the
  qualified names \<open>c%1.x\<close> and \<open>c%1.y\<close>.
\<close>

theorem bind_name_with_place_marker:
  "m_name example_marker_started = ''c%1''
   \<and> m_connectionState example_marker_started = Connecting
   \<and> m_pinsByName example_marker_started = [(''x'', 1), (''y'', 2)]
   \<and> map msg_type (halrcmd_sent example_marker_started) = [MT_HALRCOMP_BIND]
   \<and> map comp_name (msg_comp (hd (halrcmd_sent example_marker_started))) = [Some ''c%1'']
   \<and> map pb_name (comp_pin (hd (msg_comp (hd (halrcmd_sent example_marker_started)))))
       = [Some ''cx.%2'', Some ''cy.%2'']
   \<and> qualified_name ''c%1'' ''x'' = ''cx.%2''
   \<and> qualified_name ''c%1'' ''x'' \<noteq> ''c%1'' @ ''.'' @ ''x''"
  by code_simp

end
